theory Spec2Isabelle
  imports Main "HOL-Library.Sublist" "HOL-Library.Word"
begin

section \<open>Errors\<close>

text \<open>
  The Go code builds every error with \<^verbatim>\<open>fmt.Errorf\<close>: either a plain message, or a
  message that wraps an underlying error with \<^verbatim>\<open>%w\<close>.  Errors coming from outside
  the repository (the HTTP transport, the JSON decoder, the orchestration runtime's store)
  are opaque.  A run-time panic (a slice expression out of range) is kept apart from
  the returned errors.
\<close>

datatype error =
    ErrMsg string
  | ErrWrap string error
  | ErrExternal string
  | Panic

text \<open>\<^verbatim>\<open>err.Error()\<close>: the message of an error; \<^verbatim>\<open>%w\<close> prints the wrapped message.\<close>

fun Error :: "error \<Rightarrow> string" where
  "Error (ErrMsg m) = m"
| "Error (ErrWrap m e) = m @ '': '' @ Error e"
| "Error (ErrExternal m) = m"
| "Error Panic = ''panic''"

section \<open>Hash extractor (internal/qbittorrent/utils.go)\<close>

text \<open>
  \<^verbatim>\<open>strings.Index(s, substr)\<close>: the index of the first instance of \<open>substr\<close> in \<open>s\<close>,
  or \<open>-1\<close> if \<open>substr\<close> is not present.  Go strings are byte sequences, as
  \<^typ>\<open>string\<close> is here.
\<close>

fun Index :: "string \<Rightarrow> string \<Rightarrow> int" where
  "Index [] substr = (if substr = [] then 0 else - 1)"
| "Index (c # s) substr =
     (if prefix substr (c # s) then 0
      else (let i = Index s substr in if i = - 1 then - 1 else i + 1))"

text \<open>
  A slice expression \<^verbatim>\<open>s[lo:hi]\<close> panics unless \<open>0 \<le> lo \<le> hi \<le> len(s)\<close>.
\<close>

definition substring :: "string \<Rightarrow> int \<Rightarrow> int \<Rightarrow> string option" where
  "substring s lo hi =
     (if 0 \<le> lo \<and> lo \<le> hi \<and> hi \<le> int (length s)
      then Some (take (nat (hi - lo)) (drop (nat lo) s)) else None)"

definition apostrophe :: char where
  "apostrophe = CHR 0x27"

definition errBtihNotFound :: error where
  "errBtihNotFound = ErrMsg ([apostrophe] @ ''btih:'' @ [apostrophe] @ '' not found'')"

definition errNoHashAfterBtih :: error where
  "errNoHashAfterBtih = ErrMsg (''no hash after '' @ [apostrophe] @ ''btih:'' @ [apostrophe])"

definition GetTorrentHash :: "string \<Rightarrow> error + string" where
  "GetTorrentHash magnetURI =
     (let btihIndex = Index magnetURI ''btih:'' in
      if btihIndex = - 1 then Inl errBtihNotFound
      else
        let hashStart = btihIndex + 5 in
        if hashStart \<ge> int (length magnetURI) then Inl errNoHashAfterBtih
        else
          (case substring magnetURI hashStart (int (length magnetURI)) of
             None \<Rightarrow> Inl Panic
           | Some rest \<Rightarrow>
               let hashEnd = Index rest ''&'' in
               if hashEnd = - 1 then Inr rest
               else (case substring magnetURI hashStart (hashStart + hashEnd) of
                       None \<Rightarrow> Inl Panic
                     | Some h \<Rightarrow> Inr h)))"

section \<open>Remote service client (internal/qbittorrent/client.go)\<close>

text \<open>
  The client struct.  Its \<^verbatim>\<open>httpClient\<close> field is the transport; what the transport
  answers is not decided by the program, so it is a parameter of the model (the
  record \<open>Transport\<close> below) and not a field.
\<close>

record Client =
  baseURL :: string
  sessionID :: string

text \<open>The torrent object of \<^verbatim>\<open>/api/v2/torrents/info\<close>; the \<^verbatim>\<open>int64\<close> fields are 64-bit words.\<close>

record TorrentInfo =
  info_AddedOn :: "64 word"
  info_AmountLeft :: "64 word"
  info_ContentPath :: string
  info_Hash :: string
  info_MagnetURI :: string
  info_Name :: string
  info_Size :: "64 word"
  info_State :: string
  info_TotalSize :: "64 word"
  info_TimeActive :: "64 word"

record Cookie =
  cookie_Name :: string
  cookie_Value :: string

datatype RequestBody =
    NoBody
  | FormBody "(string \<times> string) list"
  | MultipartBody "(string \<times> string) list"

record Request =
  req_Method :: string
  req_URL :: string
  req_ContentType :: "string option"
  req_Cookies :: "Cookie list"
  req_Body :: RequestBody

text \<open>
  An HTTP response as the client reads it: the status code and status line, the cookies
  of \<^verbatim>\<open>resp.Cookies()\<close>, and what \<^verbatim>\<open>json.NewDecoder(resp.Body).Decode\<close> makes of the
  body as a list of torrent objects (a decoding error, or the list).
\<close>

record Response =
  resp_StatusCode :: int
  resp_Status :: string
  resp_Cookies :: "Cookie list"
  resp_Body :: "error + TorrentInfo list"

definition StatusOK :: int where
  "StatusOK = 200"

definition StatusUnauthorized :: int where
  "StatusUnauthorized = 401"

text \<open>
  The transport: \<^verbatim>\<open>httpClient.PostForm\<close> and \<^verbatim>\<open>httpClient.Do\<close> answer with an error or a
  response; \<^verbatim>\<open>http.NewRequest\<close> may reject the method or the URL;
  \<^verbatim>\<open>writer.CreateFormField\<close> may fail.  All four are code of Go's standard library.
\<close>

record Transport =
  PostForm :: "string \<Rightarrow> (string \<times> string) list \<Rightarrow> error + Response"
  Do :: "Request \<Rightarrow> error + Response"
  NewRequest :: "string \<Rightarrow> string \<Rightarrow> error option"
  CreateFormField :: "string \<Rightarrow> error option"

text \<open>
  The loop of \<^verbatim>\<open>Login\<close> over the response's cookies: the first cookie named \<^verbatim>\<open>SID\<close>
  is stored in the client and the loop breaks; with no such cookie the client is left
  as it was.
\<close>

fun storeSID :: "Cookie list \<Rightarrow> Client \<Rightarrow> Client" where
  "storeSID [] c = c"
| "storeSID (cookie # cookies) c =
     (if cookie_Name cookie = ''SID'' then c\<lparr>sessionID := cookie_Value cookie\<rparr>
      else storeSID cookies c)"

text \<open>
  Every operation returns its result together with the client as the call leaves it,
  so that a write to a field of the client shows in the result.
\<close>

definition Login :: "Transport \<Rightarrow> Client \<Rightarrow> string \<Rightarrow> string \<Rightarrow> error option \<times> Client" where
  "Login tr c username password =
     (let loginURL = baseURL c @ ''/api/v2/auth/login'';
          loginData = [(''username'', username), (''password'', password)]
      in case PostForm tr loginURL loginData of
           Inl err \<Rightarrow> (Some (ErrWrap ''failed to login to qbittorrent'' err), c)
         | Inr resp \<Rightarrow>
             if resp_StatusCode resp \<noteq> StatusOK
             then (Some (ErrMsg (''failed to login to qbittorrent. Status: '' @ resp_Status resp)), c)
             else
               let c' = storeSID (resp_Cookies resp) c in
               if sessionID c' = []
               then (Some (ErrMsg ''failed to get session ID from qbittorrent response''), c')
               else (None, c'))"

definition sidCookie :: "Client \<Rightarrow> Cookie" where
  "sidCookie c = \<lparr>cookie_Name = ''SID'', cookie_Value = sessionID c\<rparr>"

definition errUnauthorized :: error where
  "errUnauthorized = ErrMsg ''unauthorized access to qbittorrent''"

definition GetTorrentsInfo :: "Transport \<Rightarrow> Client \<Rightarrow> (error + TorrentInfo list) \<times> Client" where
  "GetTorrentsInfo tr c =
     (let torrentsInfoURL = baseURL c @ ''/api/v2/torrents/info'' in
      case NewRequest tr ''GET'' torrentsInfoURL of
        Some err \<Rightarrow> (Inl (ErrWrap ''failed to create request'' err), c)
      | None \<Rightarrow>
          let req = \<lparr>req_Method = ''GET'', req_URL = torrentsInfoURL, req_ContentType = None,
                     req_Cookies = [sidCookie c], req_Body = NoBody\<rparr>
          in case Do tr req of
               Inl err \<Rightarrow> (Inl (ErrWrap ''failed to get torrents info list'' err), c)
             | Inr resp \<Rightarrow>
                 if resp_StatusCode resp \<noteq> StatusOK then
                   (if resp_StatusCode resp = StatusUnauthorized then (Inl errUnauthorized, c)
                    else (Inl (ErrMsg (''failed to get torrents info list. Status: ''
                                        @ resp_Status resp)), c))
                 else
                   (case resp_Body resp of
                      Inl err \<Rightarrow> (Inl (ErrWrap ''failed to parse torrents info list'' err), c)
                    | Inr torrentsInfo \<Rightarrow> (Inr torrentsInfo, c)))"

text \<open>
  The scan of \<^verbatim>\<open>GetTorrentInfo\<close>: it returns at the first record whose hash is the one
  asked for, and falls off the end of the list with \<^verbatim>\<open>nil\<close>.
\<close>

fun scanTorrents :: "TorrentInfo list \<Rightarrow> string \<Rightarrow> TorrentInfo option" where
  "scanTorrents [] hash = None"
| "scanTorrents (torrent # torrentsInfo) hash =
     (if info_Hash torrent = hash then Some torrent else scanTorrents torrentsInfo hash)"

definition GetTorrentInfo ::
  "Transport \<Rightarrow> Client \<Rightarrow> string \<Rightarrow> (error + TorrentInfo option) \<times> Client" where
  "GetTorrentInfo tr c hash =
     (case GetTorrentsInfo tr c of
        (Inl err, c') \<Rightarrow> (Inl (ErrWrap ''failed to get torrents info list'' err), c')
      | (Inr torrentsInfo, c') \<Rightarrow> (Inr (scanTorrents torrentsInfo hash), c'))"

definition AddTorrent :: "Transport \<Rightarrow> Client \<Rightarrow> string \<Rightarrow> error option \<times> Client" where
  "AddTorrent tr c magnetURI =
     (let torrentsAddURL = baseURL c @ ''/api/v2/torrents/add'' in
      case CreateFormField tr ''urls'' of
        Some err \<Rightarrow> (Some (ErrWrap ''failed to create form field'' err), c)
      | None \<Rightarrow>
         (case NewRequest tr ''POST'' torrentsAddURL of
            Some err \<Rightarrow> (Some (ErrWrap ''failed to create request'' err), c)
          | None \<Rightarrow>
              let req = \<lparr>req_Method = ''POST'', req_URL = torrentsAddURL,
                         req_ContentType = Some ''multipart/form-data'',
                         req_Cookies = [sidCookie c],
                         req_Body = MultipartBody [(''urls'', magnetURI), (''urls'', magnetURI)]\<rparr>
              in case Do tr req of
                   Inl err \<Rightarrow> (Some (ErrWrap ''failed to add torrent'' err), c)
                 | Inr resp \<Rightarrow>
                     if resp_StatusCode resp \<noteq> StatusOK then
                       (if resp_StatusCode resp = StatusUnauthorized then (Some errUnauthorized, c)
                        else (Some (ErrMsg (''failed to add torrent. Status: ''
                                             @ resp_Status resp)), c))
                     else (None, c)))"

text \<open>\<^verbatim>\<open>fmt.Sprintf("%t", b)\<close>.\<close>

definition formatBool :: "bool \<Rightarrow> string" where
  "formatBool b = (if b then ''true'' else ''false'')"

definition DeleteTorrent :: "Transport \<Rightarrow> Client \<Rightarrow> string \<Rightarrow> bool \<Rightarrow> error option \<times> Client" where
  "DeleteTorrent tr c hash deleteFiles =
     (let torrentsDeleteURL = baseURL c @ ''/api/v2/torrents/delete'';
          data = [(''hashes'', hash), (''deleteFiles'', formatBool deleteFiles)]
      in case NewRequest tr ''POST'' torrentsDeleteURL of
           Some err \<Rightarrow> (Some (ErrWrap ''failed to create request'' err), c)
         | None \<Rightarrow>
             let req = \<lparr>req_Method = ''POST'', req_URL = torrentsDeleteURL,
                        req_ContentType = Some ''application/x-www-form-urlencoded'',
                        req_Cookies = [sidCookie c], req_Body = FormBody data\<rparr>
             in case Do tr req of
                  Inl err \<Rightarrow> (Some (ErrWrap ''failed to delete torrent'' err), c)
                | Inr resp \<Rightarrow>
                    if resp_StatusCode resp \<noteq> StatusOK then
                      (if resp_StatusCode resp = StatusUnauthorized then (Some errUnauthorized, c)
                       else (Some (ErrMsg (''failed to delete torrent. Status: ''
                                            @ resp_Status resp)), c))
                    else (None, c))"

section \<open>The Torrent resource (api/v1alpha1) and the runtime's helpers\<close>

text \<open>
  \<^verbatim>\<open>metav1.Condition\<close>.  A \<^verbatim>\<open>metav1.Time\<close> is a natural number here, \<open>0\<close> being the zero
  time of \<^verbatim>\<open>IsZero\<close>; \<^verbatim>\<open>ConditionStatus\<close> is a string type in Go.
\<close>

record Condition =
  cond_Type :: string
  cond_Status :: string
  cond_ObservedGeneration :: "64 word"
  cond_LastTransitionTime :: nat
  cond_Reason :: string
  cond_Message :: string

definition ConditionTrue :: string where
  "ConditionTrue = ''True''"

record TorrentSpec =
  spec_MagnetURI :: string

record TorrentStatus =
  status_ContentPath :: string
  status_AddedOn :: "64 word"
  status_State :: string
  status_TotalSize :: "64 word"
  status_Name :: string
  status_TimeActive :: "64 word"
  status_AmountLeft :: "64 word"
  status_Hash :: string
  status_Conditions :: "Condition list"

text \<open>
  The Torrent object: of \<^verbatim>\<open>metav1.ObjectMeta\<close> the name, the deletion timestamp (a pointer,
  \<^verbatim>\<open>nil\<close> is \<open>None\<close>) and the finalizers; then the spec and the status.
\<close>

record Torrent =
  Name :: string
  DeletionTimestamp :: "nat option"
  Finalizers :: "string list"
  Spec :: TorrentSpec
  Status :: TorrentStatus

text \<open>The zero value \<^verbatim>\<open>&torrentv1alpha1.Torrent{}\<close>.\<close>

definition emptyTorrent :: Torrent where
  "emptyTorrent =
     \<lparr>Name = [], DeletionTimestamp = None, Finalizers = [],
      Spec = \<lparr>spec_MagnetURI = []\<rparr>,
      Status = \<lparr>status_ContentPath = [], status_AddedOn = 0, status_State = [],
                status_TotalSize = 0, status_Name = [], status_TimeActive = 0,
                status_AmountLeft = 0, status_Hash = [], status_Conditions = []\<rparr>\<rparr>"

text \<open>\<^verbatim>\<open>(*metav1.Time).IsZero\<close>: true of a nil pointer and of the zero time.\<close>

definition IsZero :: "nat option \<Rightarrow> bool" where
  "IsZero t = (case t of None \<Rightarrow> True | Some v \<Rightarrow> v = 0)"

text \<open>
  \<^verbatim>\<open>meta.SetStatusCondition\<close> and \<^verbatim>\<open>meta.RemoveStatusCondition\<close> of
  \<^verbatim>\<open>k8s.io/apimachinery/pkg/api/meta\<close>.  Setting looks for the first condition of the new
  condition's type: with none, the new condition is appended (its transition time set to
  the current time if it is zero); otherwise that condition is updated in place, field by
  field, the transition time only when the status changes.  Removing drops every condition
  of the given type.
\<close>

definition updateExisting :: "nat \<Rightarrow> Condition \<Rightarrow> Condition \<Rightarrow> Condition" where
  "updateExisting now existingCondition newCondition =
     (let e1 = (if cond_Status existingCondition \<noteq> cond_Status newCondition
                then existingCondition
                       \<lparr>cond_Status := cond_Status newCondition,
                        cond_LastTransitionTime :=
                          (if cond_LastTransitionTime newCondition \<noteq> 0
                           then cond_LastTransitionTime newCondition else now)\<rparr>
                else existingCondition);
          e2 = (if cond_Reason e1 \<noteq> cond_Reason newCondition
                then e1\<lparr>cond_Reason := cond_Reason newCondition\<rparr> else e1);
          e3 = (if cond_Message e2 \<noteq> cond_Message newCondition
                then e2\<lparr>cond_Message := cond_Message newCondition\<rparr> else e2)
      in (if cond_ObservedGeneration e3 \<noteq> cond_ObservedGeneration newCondition
          then e3\<lparr>cond_ObservedGeneration := cond_ObservedGeneration newCondition\<rparr> else e3))"

fun SetStatusCondition :: "nat \<Rightarrow> Condition list \<Rightarrow> Condition \<Rightarrow> Condition list" where
  "SetStatusCondition now [] newCondition =
     [if cond_LastTransitionTime newCondition = 0
      then newCondition\<lparr>cond_LastTransitionTime := now\<rparr> else newCondition]"
| "SetStatusCondition now (c # conditions) newCondition =
     (if cond_Type c = cond_Type newCondition
      then updateExisting now c newCondition # conditions
      else c # SetStatusCondition now conditions newCondition)"

definition RemoveStatusCondition :: "Condition list \<Rightarrow> string \<Rightarrow> Condition list" where
  "RemoveStatusCondition conditions conditionType =
     filter (\<lambda>condition. cond_Type condition \<noteq> conditionType) conditions"

text \<open>\<^verbatim>\<open>meta.FindStatusCondition\<close>: the first condition of the given type.\<close>

definition FindStatusCondition :: "Condition list \<Rightarrow> string \<Rightarrow> Condition option" where
  "FindStatusCondition conditions conditionType =
     find (\<lambda>condition. cond_Type condition = conditionType) conditions"

text \<open>
  \<^verbatim>\<open>controllerutil.ContainsFinalizer\<close>, \<^verbatim>\<open>AddFinalizer\<close> (appends unless present) and
  \<^verbatim>\<open>RemoveFinalizer\<close> (drops every occurrence) of controller-runtime.
\<close>

definition ContainsFinalizer :: "Torrent \<Rightarrow> string \<Rightarrow> bool" where
  "ContainsFinalizer o' finalizer = (finalizer \<in> set (Finalizers o'))"

definition AddFinalizer :: "Torrent \<Rightarrow> string \<Rightarrow> Torrent" where
  "AddFinalizer o' finalizer =
     (if finalizer \<in> set (Finalizers o') then o'
      else o'\<lparr>Finalizers := Finalizers o' @ [finalizer]\<rparr>)"

definition RemoveFinalizer :: "Torrent \<Rightarrow> string \<Rightarrow> Torrent" where
  "RemoveFinalizer o' finalizer =
     o'\<lparr>Finalizers := filter (\<lambda>e. e \<noteq> finalizer) (Finalizers o')\<rparr>"

section \<open>Reconciliation controller (internal/controller)\<close>

definition TypeAvailableTorrent :: string where
  "TypeAvailableTorrent = ''Available''"

definition TypeDegradedTorrent :: string where
  "TypeDegradedTorrent = ''Degraded''"

definition TorrentFinalizer :: string where
  "TorrentFinalizer = ''torrent.qbittorrent.io/finalizer''"

text \<open>\<^verbatim>\<open>time.Second\<close>, a \<^verbatim>\<open>time.Duration\<close> in nanoseconds; \<^verbatim>\<open>ctrl.Result\<close>.\<close>

definition Second :: int where
  "Second = 1000000000"

record Result =
  RequeueAfter :: int

definition noRequeue :: Result where
  "noRequeue = \<lparr>RequeueAfter = 0\<rparr>"

text \<open>
  The six places where the controller calls \<^verbatim>\<open>r.Status().Update\<close>, by what was done
  just before: a Degraded condition set after a failed delete, a failed lookup or a failed
  add; an Available condition set after an add or at the end of a sync; the observed
  fields overwritten from the remote record.
\<close>

datatype Site =
    DeleteFailed
  | GetInfoFailed
  | AddFailed
  | Added
  | FieldsChanged
  | Active

text \<open>
  What a pass does to the outside, in order: the operations of the remote service client
  it invokes, and the writes to the store with the object written and the answer.
\<close>

datatype Call =
    CallDeleteTorrent string bool
  | CallGetTorrentInfo string
  | CallAddTorrent string
  | CallUpdate Torrent "error option"
  | CallStatusUpdate Site Torrent "error option"

fun isRemoteCall :: "Call \<Rightarrow> bool" where
  "isRemoteCall (CallDeleteTorrent h d) = True"
| "isRemoteCall (CallGetTorrentInfo h) = True"
| "isRemoteCall (CallAddTorrent m) = True"
| "isRemoteCall (CallUpdate t e) = False"
| "isRemoteCall (CallStatusUpdate s t e) = False"

text \<open>
  What the pass cannot decide: the transport's answers, the clock, and whether the store
  accepts a read or a write.  Each write site runs at most once in a pass, so the answer
  to a status write may depend on the site.
\<close>

record Env =
  http :: Transport
  Now :: nat
  GetErr :: "error option"
  UpdateErr :: "Torrent \<Rightarrow> error option"
  StatusUpdateErr :: "Site \<Rightarrow> Torrent \<Rightarrow> error option"

text \<open>
  What a pass can change: the store's copy of the resource (\<open>None\<close> when there is none),
  the trace of calls, and the remote service client \<^verbatim>\<open>r.QBTClient\<close>.
\<close>

record World =
  stored :: "Torrent option"
  calls :: "Call list"
  qbt :: Client

definition errNotFound :: error where
  "errNotFound = ErrExternal ''not found''"

text \<open>
  The store of the orchestration runtime.  The resource has a status subresource
  (\<^verbatim>\<open>+kubebuilder:subresource:status\<close>): \<^verbatim>\<open>r.Update\<close> writes everything but the status,
  \<^verbatim>\<open>r.Status().Update\<close> writes the status only.  A write that succeeds reads the written
  object back into the object passed; a write that fails leaves both as they were.  A
  resource that carries a deletion timestamp is held by its finalizers only: the store
  deletes it when a write leaves it without any.
\<close>

definition afterUpdate :: "Torrent \<Rightarrow> Torrent option" where
  "afterUpdate s =
     (if \<not> IsZero (DeletionTimestamp s) \<and> Finalizers s = [] then None else Some s)"

definition Update :: "Env \<Rightarrow> Torrent \<Rightarrow> World \<Rightarrow> error option \<times> Torrent \<times> World" where
  "Update env torrent w =
     (case UpdateErr env torrent of
        Some err \<Rightarrow> (Some err, torrent, w\<lparr>calls := calls w @ [CallUpdate torrent (Some err)]\<rparr>)
      | None \<Rightarrow>
         (case stored w of
            None \<Rightarrow> (Some errNotFound, torrent,
                      w\<lparr>calls := calls w @ [CallUpdate torrent (Some errNotFound)]\<rparr>)
          | Some s \<Rightarrow>
              let s' = torrent\<lparr>Status := Status s\<rparr>
              in (None, s',
                  w\<lparr>stored := afterUpdate s', calls := calls w @ [CallUpdate torrent None]\<rparr>)))"

definition StatusUpdate ::
  "Env \<Rightarrow> Site \<Rightarrow> Torrent \<Rightarrow> World \<Rightarrow> error option \<times> Torrent \<times> World" where
  "StatusUpdate env site torrent w =
     (case StatusUpdateErr env site torrent of
        Some err \<Rightarrow>
          (Some err, torrent, w\<lparr>calls := calls w @ [CallStatusUpdate site torrent (Some err)]\<rparr>)
      | None \<Rightarrow>
         (case stored w of
            None \<Rightarrow> (Some errNotFound, torrent,
                      w\<lparr>calls := calls w @ [CallStatusUpdate site torrent (Some errNotFound)]\<rparr>)
          | Some s \<Rightarrow>
              let s' = s\<lparr>Status := Status torrent\<rparr>
              in (None, s',
                  w\<lparr>stored := Some s', calls := calls w @ [CallStatusUpdate site torrent None]\<rparr>)))"

text \<open>What a pass returns, and what it leaves: the object in memory and the world.\<close>

record Outcome =
  result :: Result
  err :: "error option"
  object :: Torrent
  world :: World

definition setConditions :: "Torrent \<Rightarrow> Condition list \<Rightarrow> Torrent" where
  "setConditions torrent conditions =
     torrent\<lparr>Status := (Status torrent)\<lparr>status_Conditions := conditions\<rparr>\<rparr>"

definition setDegradedCondition :: "Env \<Rightarrow> Torrent \<Rightarrow> string \<Rightarrow> string \<Rightarrow> Torrent" where
  "setDegradedCondition env torrent reason message =
     (let condition = \<lparr>cond_Type = TypeDegradedTorrent, cond_Status = ConditionTrue,
                       cond_ObservedGeneration = 0, cond_LastTransitionTime = Now env,
                       cond_Reason = reason, cond_Message = message\<rparr>;
          conditions1 = SetStatusCondition (Now env) (status_Conditions (Status torrent)) condition
      in setConditions torrent (RemoveStatusCondition conditions1 TypeAvailableTorrent))"

definition setAvailableCondition :: "Env \<Rightarrow> Torrent \<Rightarrow> string \<Rightarrow> string \<Rightarrow> Torrent" where
  "setAvailableCondition env torrent reason message =
     (let condition = \<lparr>cond_Type = TypeAvailableTorrent, cond_Status = ConditionTrue,
                       cond_ObservedGeneration = 0, cond_LastTransitionTime = Now env,
                       cond_Reason = reason, cond_Message = message\<rparr>;
          conditions1 = SetStatusCondition (Now env) (status_Conditions (Status torrent)) condition
      in setConditions torrent (RemoveStatusCondition conditions1 TypeDegradedTorrent))"

text \<open>
  The exclusivity of the two conditions: a list does not hold both an Available condition
  with status True and a Degraded condition with status True.
\<close>

definition exclusive :: "Condition list \<Rightarrow> bool" where
  "exclusive conditions =
     (\<not> ((\<exists>c \<in> set conditions. cond_Type c = TypeAvailableTorrent \<and> cond_Status c = ConditionTrue)
        \<and> (\<exists>c \<in> set conditions. cond_Type c = TypeDegradedTorrent \<and> cond_Status c = ConditionTrue)))"

text \<open>
  \<^verbatim>\<open>updateTorrentStatus\<close>: each observed field is compared with the remote record's and
  overwritten when it differs; the flag says whether any was.
\<close>

definition updateTorrentStatus :: "Torrent \<Rightarrow> TorrentInfo \<Rightarrow> bool \<times> Torrent" where
  "updateTorrentStatus torrent qbTorrent =
     (let s0 = Status torrent;
          (u1, s1) = (if status_Hash s0 \<noteq> info_Hash qbTorrent
                      then (True, s0\<lparr>status_Hash := info_Hash qbTorrent\<rparr>) else (False, s0));
          (u2, s2) = (if status_Name s1 \<noteq> info_Name qbTorrent
                      then (True, s1\<lparr>status_Name := info_Name qbTorrent\<rparr>) else (u1, s1));
          (u3, s3) = (if status_State s2 \<noteq> info_State qbTorrent
                      then (True, s2\<lparr>status_State := info_State qbTorrent\<rparr>) else (u2, s2));
          (u4, s4) = (if status_TotalSize s3 \<noteq> info_TotalSize qbTorrent
                      then (True, s3\<lparr>status_TotalSize := info_TotalSize qbTorrent\<rparr>)
                      else (u3, s3));
          (u5, s5) = (if status_ContentPath s4 \<noteq> info_ContentPath qbTorrent
                      then (True, s4\<lparr>status_ContentPath := info_ContentPath qbTorrent\<rparr>)
                      else (u4, s4));
          (u6, s6) = (if status_AddedOn s5 \<noteq> info_AddedOn qbTorrent
                      then (True, s5\<lparr>status_AddedOn := info_AddedOn qbTorrent\<rparr>)
                      else (u5, s5));
          (u7, s7) = (if status_TimeActive s6 \<noteq> info_TimeActive qbTorrent
                      then (True, s6\<lparr>status_TimeActive := info_TimeActive qbTorrent\<rparr>)
                      else (u6, s6));
          (updated, s8) = (if status_AmountLeft s7 \<noteq> info_AmountLeft qbTorrent
                      then (True, s7\<lparr>status_AmountLeft := info_AmountLeft qbTorrent\<rparr>)
                      else (u7, s7))
      in (updated, torrent\<lparr>Status := s8\<rparr>))"

text \<open>
  The paths of \<^verbatim>\<open>handleDeletion\<close> and \<^verbatim>\<open>reconcile\<close> that set a condition, write the
  status, only log a failure of that write, and ask for the given delay.
\<close>

definition persistAndRequeue :: "Env \<Rightarrow> Site \<Rightarrow> int \<Rightarrow> Torrent \<Rightarrow> World \<Rightarrow> Outcome" where
  "persistAndRequeue env site delay torrent w =
     (case StatusUpdate env site torrent w of
        (_, torrent', w') \<Rightarrow>
          \<lparr>result = \<lparr>RequeueAfter = delay\<rparr>, err = None, object = torrent', world = w'\<rparr>)"

text \<open>The end of \<^verbatim>\<open>handleDeletion\<close>: the finalizer is removed and the resource written.\<close>

definition removeFinalizer :: "Env \<Rightarrow> Torrent \<Rightarrow> World \<Rightarrow> Outcome" where
  "removeFinalizer env torrent w =
     (case Update env (RemoveFinalizer torrent TorrentFinalizer) w of
        (Some e, torrent', w') \<Rightarrow>
          \<lparr>result = noRequeue, err = Some e, object = torrent', world = w'\<rparr>
      | (None, torrent', w') \<Rightarrow>
          \<lparr>result = noRequeue, err = None, object = torrent', world = w'\<rparr>)"

definition handleDeletion :: "Env \<Rightarrow> Torrent \<Rightarrow> World \<Rightarrow> Outcome" where
  "handleDeletion env torrent w =
     (if status_Hash (Status torrent) \<noteq> [] then
        (case DeleteTorrent (http env) (qbt w) (status_Hash (Status torrent)) True of
           (Some e, c') \<Rightarrow>
             persistAndRequeue env DeleteFailed (10 * Second)
               (setDegradedCondition env torrent ''FailedToDeleteTorrent'' (Error e))
               (w\<lparr>qbt := c',
                  calls := calls w @ [CallDeleteTorrent (status_Hash (Status torrent)) True]\<rparr>)
         | (None, c') \<Rightarrow>
             removeFinalizer env torrent
               (w\<lparr>qbt := c',
                  calls := calls w @ [CallDeleteTorrent (status_Hash (Status torrent)) True]\<rparr>))
      else removeFinalizer env torrent w)"

text \<open>Steps 4.4 and 4.5 of \<^verbatim>\<open>reconcile\<close>.\<close>

definition setActive :: "Env \<Rightarrow> Torrent \<Rightarrow> World \<Rightarrow> Outcome" where
  "setActive env torrent w =
     persistAndRequeue env Active (30 * Second)
       (setAvailableCondition env torrent ''TorrentActive'' ''Torrent is active on qBittorrent'') w"

definition reconcile :: "Env \<Rightarrow> Torrent \<Rightarrow> World \<Rightarrow> Outcome" where
  "reconcile env torrent w =
     (case GetTorrentHash (spec_MagnetURI (Spec torrent)) of
        Inl e \<Rightarrow> \<lparr>result = noRequeue, err = Some e, object = torrent, world = w\<rparr>
      | Inr hash \<Rightarrow>
         (case GetTorrentInfo (http env) (qbt w) hash of
            (Inl e, c1) \<Rightarrow>
              persistAndRequeue env GetInfoFailed (10 * Second)
                (setDegradedCondition env torrent ''FailedToGetTorrentInfo'' (Error e))
                (w\<lparr>qbt := c1, calls := calls w @ [CallGetTorrentInfo hash]\<rparr>)
          | (Inr None, c1) \<Rightarrow>
             (case AddTorrent (http env) c1 (spec_MagnetURI (Spec torrent)) of
                (Some e, c2) \<Rightarrow>
                  persistAndRequeue env AddFailed (10 * Second)
                    (setDegradedCondition env torrent ''FailedToAddTorrent'' (Error e))
                    (w\<lparr>qbt := c2,
                       calls := calls w @ [CallGetTorrentInfo hash,
                                           CallAddTorrent (spec_MagnetURI (Spec torrent))]\<rparr>)
              | (None, c2) \<Rightarrow>
                  persistAndRequeue env Added (5 * Second)
                    (setAvailableCondition env torrent ''TorrentAdded''
                       ''Torrent added to qBittorrent'')
                    (w\<lparr>qbt := c2,
                       calls := calls w @ [CallGetTorrentInfo hash,
                                           CallAddTorrent (spec_MagnetURI (Spec torrent))]\<rparr>))
          | (Inr (Some torrentInfo), c1) \<Rightarrow>
             (let w1 = w\<lparr>qbt := c1, calls := calls w @ [CallGetTorrentInfo hash]\<rparr> in
              case updateTorrentStatus torrent torrentInfo of
                (True, torrent1) \<Rightarrow>
                  (case StatusUpdate env FieldsChanged torrent1 w1 of
                     (Some e, torrent2, w2) \<Rightarrow>
                       \<lparr>result = noRequeue, err = Some e, object = torrent2, world = w2\<rparr>
                   | (None, torrent2, w2) \<Rightarrow> setActive env torrent2 w2)
              | (False, torrent1) \<Rightarrow> setActive env torrent1 w1)))"

text \<open>
  \<^verbatim>\<open>Reconcile\<close>.  \<^verbatim>\<open>r.Get\<close> fails with the store's error, or with not-found when the store
  holds no resource of that name, which \<^verbatim>\<open>client.IgnoreNotFound\<close> turns into \<^verbatim>\<open>nil\<close>.
\<close>

definition Reconcile :: "Env \<Rightarrow> World \<Rightarrow> Outcome" where
  "Reconcile env w =
     (case GetErr env of
        Some e \<Rightarrow> \<lparr>result = noRequeue, err = Some e, object = emptyTorrent, world = w\<rparr>
      | None \<Rightarrow>
         (case stored w of
            None \<Rightarrow> \<lparr>result = noRequeue, err = None, object = emptyTorrent, world = w\<rparr>
          | Some torrent \<Rightarrow>
              if \<not> IsZero (DeletionTimestamp torrent) then handleDeletion env torrent w
              else if \<not> ContainsFinalizer torrent TorrentFinalizer then
                (case Update env (AddFinalizer torrent TorrentFinalizer) w of
                   (Some e, torrent', w') \<Rightarrow>
                     \<lparr>result = noRequeue, err = Some e, object = torrent', world = w'\<rparr>
                 | (None, torrent', w') \<Rightarrow>
                     \<lparr>result = \<lparr>RequeueAfter = 1 * Second\<rparr>, err = None,
                      object = torrent', world = w'\<rparr>)
              else reconcile env torrent w))"

text \<open>The remote record matches every observed field of the resource's status.\<close>

definition fieldsMatch :: "Torrent \<Rightarrow> TorrentInfo \<Rightarrow> bool" where
  "fieldsMatch torrent qbTorrent =
     (status_Hash (Status torrent) = info_Hash qbTorrent
      \<and> status_Name (Status torrent) = info_Name qbTorrent
      \<and> status_State (Status torrent) = info_State qbTorrent
      \<and> status_TotalSize (Status torrent) = info_TotalSize qbTorrent
      \<and> status_ContentPath (Status torrent) = info_ContentPath qbTorrent
      \<and> status_AddedOn (Status torrent) = info_AddedOn qbTorrent
      \<and> status_TimeActive (Status torrent) = info_TimeActive qbTorrent
      \<and> status_AmountLeft (Status torrent) = info_AmountLeft qbTorrent)"

text \<open>The store's copy of the resource, if there is one, has exclusive conditions.\<close>

definition storedExclusive :: "World \<Rightarrow> bool" where
  "storedExclusive w =
     (case stored w of None \<Rightarrow> True | Some s \<Rightarrow> exclusive (status_Conditions (Status s)))"

text \<open>A call is a write that the store refused.\<close>

fun failedWrite :: "Call \<Rightarrow> bool" where
  "failedWrite (CallUpdate t (Some e)) = True"
| "failedWrite (CallStatusUpdate site t (Some e)) = True"
| "failedWrite c = False"

text \<open>
  How the pass answers the writes the store refused, for a trace and an outcome: a
  refused \<^verbatim>\<open>r.Update\<close> and a refused write of changed fields are the pass's error, with
  no delay; a refused status write after a condition was set leaves the pass without
  error and with the delay of that path.
\<close>

definition writeFailuresHandled :: "Call list \<Rightarrow> Outcome \<Rightarrow> bool" where
  "writeFailuresHandled cs out =
     ((\<forall>t e. CallUpdate t (Some e) \<in> set cs \<longrightarrow> err out = Some e \<and> result out = noRequeue)
    \<and> (\<forall>t e. CallStatusUpdate FieldsChanged t (Some e) \<in> set cs \<longrightarrow>
          err out = Some e \<and> result out = noRequeue)
    \<and> (\<forall>site t e. CallStatusUpdate site t (Some e) \<in> set cs \<longrightarrow>
          site \<in> {DeleteFailed, GetInfoFailed, AddFailed} \<longrightarrow>
          err out = None \<and> result out = \<lparr>RequeueAfter = 10 * Second\<rparr>)
    \<and> (\<forall>t e. CallStatusUpdate Added t (Some e) \<in> set cs \<longrightarrow>
          err out = None \<and> result out = \<lparr>RequeueAfter = 5 * Second\<rparr>)
    \<and> (\<forall>t e. CallStatusUpdate Active t (Some e) \<in> set cs \<longrightarrow>
          err out = None \<and> result out = \<lparr>RequeueAfter = 30 * Second\<rparr>))"

text \<open>
  The conditions as a completed sync leaves them: the Available condition is there with
  status True and the reason and message of \<^verbatim>\<open>TorrentActive\<close>, and there is no Degraded
  condition.
\<close>

definition showsActive :: "Condition list \<Rightarrow> bool" where
  "showsActive conditions =
     ((case FindStatusCondition conditions TypeAvailableTorrent of
         None \<Rightarrow> False
       | Some c \<Rightarrow> cond_Status c = ConditionTrue \<and> cond_Reason c = ''TorrentActive''
                  \<and> cond_Message c = ''Torrent is active on qBittorrent''
                  \<and> cond_ObservedGeneration c = 0)
      \<and> (\<forall>c \<in> set conditions. cond_Type c \<noteq> TypeDegradedTorrent))"

section \<open>Concrete inputs\<close>

text \<open>A transport whose every answer is a plain \<open>200 OK\<close> carrying the given torrent list.\<close>

definition okResponse :: "TorrentInfo list \<Rightarrow> Response" where
  "okResponse l =
     \<lparr>resp_StatusCode = 200, resp_Status = ''200 OK'', resp_Cookies = [], resp_Body = Inr l\<rparr>"

definition okTransport :: "TorrentInfo list \<Rightarrow> Transport" where
  "okTransport l =
     \<lparr>PostForm = (\<lambda>url form. Inr (okResponse l)), Do = (\<lambda>req. Inr (okResponse l)),
      NewRequest = (\<lambda>method url. None), CreateFormField = (\<lambda>name. None)\<rparr>"

text \<open>A transport on which every exchange fails.\<close>

definition downTransport :: Transport where
  "downTransport =
     \<lparr>PostForm = (\<lambda>url form. Inl (ErrExternal ''connection refused'')),
      Do = (\<lambda>req. Inl (ErrExternal ''connection refused'')),
      NewRequest = (\<lambda>method url. None), CreateFormField = (\<lambda>name. None)\<rparr>"

definition exampleInfo :: "string \<Rightarrow> string \<Rightarrow> string \<Rightarrow> TorrentInfo" where
  "exampleInfo hash name state =
     \<lparr>info_AddedOn = 1700000000, info_AmountLeft = 0, info_ContentPath = ''/downloads/'' @ name,
      info_Hash = hash, info_MagnetURI = ''magnet:?xt=urn:btih:'' @ hash, info_Name = name,
      info_Size = 1024, info_State = state, info_TotalSize = 1024, info_TimeActive = 60\<rparr>"

text \<open>A client that holds the session of an earlier login, and one that never logged in.\<close>

definition loggedInClient :: Client where
  "loggedInClient = \<lparr>baseURL = ''http://qbittorrent:8080'', sessionID = ''old-session''\<rparr>"

definition freshClient :: Client where
  "freshClient = \<lparr>baseURL = ''http://qbittorrent:8080'', sessionID = []\<rparr>"

text \<open>
  A resource as a user creates it, and the same resource after a sync, marked for
  deletion.
\<close>

definition newTorrent :: Torrent where
  "newTorrent =
     \<lparr>Name = ''ubuntu'', DeletionTimestamp = None, Finalizers = [],
      Spec = \<lparr>spec_MagnetURI = ''magnet:?xt=urn:btih:abc&dn=ubuntu''\<rparr>,
      Status = \<lparr>status_ContentPath = [], status_AddedOn = 0, status_State = [],
                status_TotalSize = 0, status_Name = [], status_TimeActive = 0,
                status_AmountLeft = 0, status_Hash = [], status_Conditions = []\<rparr>\<rparr>"

definition availableCondition :: Condition where
  "availableCondition =
     \<lparr>cond_Type = ''Available'', cond_Status = ''True'', cond_ObservedGeneration = 0,
      cond_LastTransitionTime = 1700000050, cond_Reason = ''TorrentActive'',
      cond_Message = ''Torrent is active on qBittorrent''\<rparr>"

definition syncedTorrent :: Torrent where
  "syncedTorrent =
     \<lparr>Name = ''ubuntu'', DeletionTimestamp = None, Finalizers = [TorrentFinalizer],
      Spec = \<lparr>spec_MagnetURI = ''magnet:?xt=urn:btih:abc&dn=ubuntu''\<rparr>,
      Status = \<lparr>status_ContentPath = ''/downloads/ubuntu'', status_AddedOn = 1700000000,
                status_State = ''downloading'', status_TotalSize = 1024,
                status_Name = ''ubuntu'', status_TimeActive = 60,
                status_AmountLeft = 0, status_Hash = ''abc'',
                status_Conditions = [availableCondition]\<rparr>\<rparr>"

definition deletingTorrent :: Torrent where
  "deletingTorrent = syncedTorrent\<lparr>DeletionTimestamp := Some 1700000100\<rparr>"

text \<open>
  An environment in which the store accepts every write, and one in which it refuses
  every write; the transport is a parameter of both.
\<close>

definition storeUp :: "Transport \<Rightarrow> Env" where
  "storeUp tr =
     \<lparr>http = tr, Now = 1700000200, GetErr = None,
      UpdateErr = (\<lambda>torrent. None), StatusUpdateErr = (\<lambda>site torrent. None)\<rparr>"

definition storeDown :: "Transport \<Rightarrow> Env" where
  "storeDown tr =
     \<lparr>http = tr, Now = 1700000200, GetErr = None,
      UpdateErr = (\<lambda>torrent. Some (ErrExternal ''conflict'')),
      StatusUpdateErr = (\<lambda>site torrent. Some (ErrExternal ''conflict''))\<rparr>"

text \<open>The world at the start of a pass on the given resource.\<close>

definition startWorld :: "Torrent \<Rightarrow> World" where
  "startWorld torrent = \<lparr>stored = Some torrent, calls = [], qbt = loggedInClient\<rparr>"

text \<open>The synced resource after a pass that failed: it shows a Degraded condition.\<close>

definition degradedCondition :: Condition where
  "degradedCondition =
     \<lparr>cond_Type = ''Degraded'', cond_Status = ''True'', cond_ObservedGeneration = 0,
      cond_LastTransitionTime = 1700000150, cond_Reason = ''FailedToGetTorrentInfo'',
      cond_Message = ''failed to get torrents info list: connection refused''\<rparr>"

definition degradedTorrent :: Torrent where
  "degradedTorrent =
     syncedTorrent\<lparr>Status := (Status syncedTorrent)\<lparr>status_Conditions := [degradedCondition]\<rparr>\<rparr>"

section \<open>Properties of the hash extractor\<close>

lemma Index_ge: "- 1 \<le> Index s sub"
  by (induction s) (auto simp: Let_def)

lemma Index_le: "Index s sub \<le> int (length s)"
  by (induction s) (auto simp: Let_def)

text \<open>\<open>Index\<close> answers \<open>-1\<close> exactly when the string does not contain the substring.\<close>

lemma Index_absent_iff: "Index s sub = - 1 \<longleftrightarrow> \<not> sublist sub s"
proof (induction s)
  case Nil
  then show ?case by simp
next
  case (Cons c s)
  have "- 1 \<le> Index s sub" by (rule Index_ge)
  then have "Index s sub + 1 \<noteq> - 1" by simp
  with Cons show ?case
    by (auto simp: Let_def sublist_Cons_right)
qed

text \<open>
  The marker does not overlap itself: where it starts inside a non-empty \<open>p\<close> that is
  followed by the marker, it lies within \<open>p\<close>.
\<close>

lemma marker_no_overlap:
  assumes "prefix ''btih:'' (p @ ''btih:'' @ r)" and "p \<noteq> []"
  shows "prefix ''btih:'' p"
proof -
  obtain a p1 where p: "p = a # p1" using assms(2) by (cases p) auto
  show ?thesis
  proof (cases p1)
    case Nil with assms(1) p show ?thesis by simp
  next
    case (Cons b p2)
    note c1 = this
    show ?thesis
    proof (cases p2)
      case Nil with assms(1) p c1 show ?thesis by simp
    next
      case (Cons c p3)
      note c2 = this
      show ?thesis
      proof (cases p3)
        case Nil with assms(1) p c1 c2 show ?thesis by simp
      next
        case (Cons d p4)
        note c3 = this
        show ?thesis
        proof (cases p4)
          case Nil with assms(1) p c1 c2 c3 show ?thesis by simp
        next
          case (Cons e p5)
          with assms(1) p c1 c2 c3 show ?thesis by simp
        qed
      qed
    qed
  qed
qed

lemma Index_marker:
  "\<not> sublist ''btih:'' p \<Longrightarrow> Index (p @ ''btih:'' @ r) ''btih:'' = int (length p)"
proof (induction p)
  case Nil
  then show ?case by simp
next
  case (Cons a p)
  from Cons.prems have np: "\<not> prefix ''btih:'' (a # p)" and ns: "\<not> sublist ''btih:'' p"
    by (auto simp: sublist_Cons_right)
  have "\<not> prefix ''btih:'' ((a # p) @ ''btih:'' @ r)"
    using marker_no_overlap[of "a # p" r] np by blast
  moreover have "Index (p @ ''btih:'' @ r) ''btih:'' = int (length p)"
    using Cons.IH ns by blast
  ultimately show ?case by (simp add: Let_def)
qed

lemma Index_amp_found:
  "CHR ''&'' \<notin> set h \<Longrightarrow> Index (h @ ''&'' @ s) ''&'' = int (length h)"
  by (induction h) (auto simp: Let_def)

lemma Index_amp_absent:
  "CHR ''&'' \<notin> set h \<Longrightarrow> Index h ''&'' = - 1"
  by (induction h) (auto simp: Let_def)

lemma GetTorrentHash_amp:
  assumes "\<not> sublist ''btih:'' p" and "CHR ''&'' \<notin> set h"
  shows "GetTorrentHash (p @ ''btih:'' @ h @ ''&'' @ s) = Inr h"
proof -
  have i: "Index (p @ ''btih:'' @ h @ ''&'' @ s) ''btih:'' = int (length p)"
    using Index_marker[OF assms(1)] by simp
  have a: "Index (h @ ''&'' @ s) ''&'' = int (length h)"
    by (rule Index_amp_found[OF assms(2)])
  show ?thesis
    unfolding GetTorrentHash_def Let_def i substring_def
    using a by (simp add: nat_add_distrib)
qed

lemma GetTorrentHash_end:
  assumes "\<not> sublist ''btih:'' p" and "CHR ''&'' \<notin> set h" and "h \<noteq> []"
  shows "GetTorrentHash (p @ ''btih:'' @ h) = Inr h"
proof -
  have i: "Index (p @ ''btih:'' @ h) ''btih:'' = int (length p)"
    using Index_marker[OF assms(1)] by simp
  have a: "Index h ''&'' = - 1"
    by (rule Index_amp_absent[OF assms(2)])
  show ?thesis
    unfolding GetTorrentHash_def Let_def i substring_def
    using a assms(3) by (simp add: nat_add_distrib)
qed

lemma GetTorrentHash_marker_last:
  assumes "\<not> sublist ''btih:'' p"
  shows "GetTorrentHash (p @ ''btih:'') = Inl errNoHashAfterBtih"
proof -
  have i: "Index (p @ ''btih:'') ''btih:'' = int (length p)"
    using Index_marker[OF assms(1), of "[]"] by simp
  show ?thesis
    unfolding GetTorrentHash_def Let_def i by simp
qed

lemma GetTorrentHash_absent:
  assumes "\<not> sublist ''btih:'' u"
  shows "GetTorrentHash u = Inl errBtihNotFound"
  using assms unfolding GetTorrentHash_def Let_def by (simp add: Index_absent_iff)

text \<open>Both slice expressions of \<^verbatim>\<open>GetTorrentHash\<close> are in range: it never panics.\<close>

lemma GetTorrentHash_no_panic: "GetTorrentHash u \<noteq> Inl Panic"
proof (cases "Index u ''btih:'' = - 1 \<or> Index u ''btih:'' + 5 \<ge> int (length u)")
  case True
  then show ?thesis
    by (auto simp: GetTorrentHash_def Let_def errBtihNotFound_def errNoHashAfterBtih_def)
next
  case False
  define hs where "hs = Index u ''btih:'' + 5"
  have "- 1 \<le> Index u ''btih:''" by (rule Index_ge)
  with False have hs0: "0 \<le> hs" and hsl: "hs < int (length u)"
    by (auto simp: hs_def)
  then have s1: "substring u hs (int (length u)) = Some (drop (nat hs) u)"
    by (simp add: substring_def)
  define he where "he = Index (drop (nat hs) u) ''&''"
  have he1: "- 1 \<le> he" unfolding he_def by (rule Index_ge)
  have "he \<le> int (length (drop (nat hs) u))" unfolding he_def by (rule Index_le)
  with hs0 hsl have he2: "hs + he \<le> int (length u)" by simp
  have s2: "\<exists>h. substring u hs (hs + he) = Some h" if "he \<noteq> - 1"
    using that he1 he2 hs0 by (simp add: substring_def)
  have unfolded: "GetTorrentHash u =
      (if he = - 1 then Inr (drop (nat hs) u)
       else (case substring u hs (hs + he) of None \<Rightarrow> Inl Panic | Some h \<Rightarrow> Inr h))"
    using False s1 unfolding GetTorrentHash_def Let_def he_def hs_def by simp
  show ?thesis
  proof (cases "he = - 1")
    case True
    with unfolded show ?thesis by simp
  next
    case False
    with s2 obtain h where "substring u hs (hs + he) = Some h" by blast
    with unfolded False show ?thesis by simp
  qed
qed

text \<open>
  Claim C3, as the code has it.  The extractor takes the \<^emph>\<open>first\<close> \<open>btih:\<close> of the string
  and cuts at the \<^emph>\<open>first\<close> \<open>&\<close> after it.  So for a prefix \<open>p\<close> that does not contain
  \<open>btih:\<close> and a token \<open>h\<close> that does not contain \<open>&\<close>: from \<open>p + "btih:" + h + "&" + s\<close>
  it returns exactly \<open>h\<close> (the empty \<open>h\<close> too); from \<open>p + "btih:" + h\<close> with \<open>h\<close> not empty
  it returns \<open>h\<close>, through the end of the string; from \<open>p + "btih:"\<close>, where nothing
  follows the marker, it returns the error "no hash after 'btih:'"; and from \<open>p\<close> alone,
  where the marker is absent, the error "'btih:' not found".  Nothing else is asked of
  \<open>h\<close>: neither its length nor its characters are checked.
\<close>

theorem GetTorrentHash_extraction:
  assumes "\<not> sublist ''btih:'' p" and "CHR ''&'' \<notin> set h"
  shows "GetTorrentHash (p @ ''btih:'' @ h @ ''&'' @ s) = Inr h
       \<and> (h \<noteq> [] \<longrightarrow> GetTorrentHash (p @ ''btih:'' @ h) = Inr h)
       \<and> GetTorrentHash (p @ ''btih:'') = Inl errNoHashAfterBtih
       \<and> GetTorrentHash p = Inl errBtihNotFound"
proof (intro conjI impI)
  show "GetTorrentHash (p @ ''btih:'' @ h @ ''&'' @ s) = Inr h"
    by (rule GetTorrentHash_amp [OF assms])
  show "GetTorrentHash (p @ ''btih:'' @ h) = Inr h" if "h \<noteq> []"
    by (rule GetTorrentHash_end [OF assms that])
  show "GetTorrentHash (p @ ''btih:'') = Inl errNoHashAfterBtih"
    by (rule GetTorrentHash_marker_last [OF assms(1)])
  show "GetTorrentHash p = Inl errBtihNotFound"
    by (rule GetTorrentHash_absent [OF assms(1)])
qed

theorem GetTorrentHash_extraction_witness:
  "\<not> sublist ''btih:'' ''magnet:?xt=urn:'' \<and> CHR ''&'' \<notin> set ''ABC123''
   \<and> GetTorrentHash ''magnet:?xt=urn:btih:ABC123&dn=test'' = Inr ''ABC123''
   \<and> GetTorrentHash ''magnet:?xt=urn:btih:ABC123'' = Inr ''ABC123''
   \<and> GetTorrentHash ''magnet:?xt=urn:btih:'' = Inl errNoHashAfterBtih
   \<and> GetTorrentHash ''magnet:?xt=urn:'' = Inl errBtihNotFound"
proof -
  have p: "\<not> sublist ''btih:'' ''magnet:?xt=urn:''"
    by (simp add: sublist_Cons_right)
  have h: "CHR ''&'' \<notin> set ''ABC123''"
    by simp
  show ?thesis
    using p h GetTorrentHash_extraction [OF p h, of "''dn=test''"] by simp
qed

text \<open>
  The claim as it is written quantifies over every prefix and every \<open>H\<close>, and fails there:
  with an \<open>&\<close> inside \<open>H\<close> the result stops at that \<open>&\<close>; with a \<open>btih:\<close> inside the prefix
  the result is taken after that earlier marker; with an empty \<open>H\<close> and no \<open>&\<close> the result
  is an error and not \<open>H\<close>; and a string that ends in \<open>btih:\<close> but has an earlier marker
  yields a hash and no error.
\<close>

theorem GetTorrentHash_counterexample:
  "GetTorrentHash ('''' @ ''btih:'' @ ''a&b'' @ ''&'' @ ''c'') \<noteq> Inr ''a&b''
   \<and> GetTorrentHash (''btih:x&'' @ ''btih:'' @ ''y'' @ ''&'' @ ''z'') \<noteq> Inr ''y''
   \<and> GetTorrentHash (''p'' @ ''btih:'' @ '''') \<noteq> Inr ''''
   \<and> GetTorrentHash (''btih:x&'' @ ''btih:'') = Inr ''x''"
  by (simp add: GetTorrentHash_def substring_def)

section \<open>Properties of the remote service client\<close>

subsection \<open>Login\<close>

lemma storeSID_no_cookie:
  "\<forall>cookie \<in> set cookies. cookie_Name cookie \<noteq> ''SID'' \<Longrightarrow> storeSID cookies c = c"
  by (induction cookies) auto

lemma storeSID_first_cookie:
  "\<forall>cookie \<in> set before. cookie_Name cookie \<noteq> ''SID'' \<Longrightarrow> cookie_Name sid = ''SID'' \<Longrightarrow>
   storeSID (before @ sid # after) c = c\<lparr>sessionID := cookie_Value sid\<rparr>"
  by (induction before) auto

lemma storeSID_baseURL: "baseURL (storeSID cookies c) = baseURL c"
  by (induction cookies) auto

text \<open>
  On a client whose session token is empty, a success response without a session cookie
  is refused.
\<close>

lemma Login_no_cookie_fresh_client:
  assumes "PostForm tr (baseURL c @ ''/api/v2/auth/login'')
             [(''username'', username), (''password'', password)] = Inr resp"
    and "resp_StatusCode resp = StatusOK"
    and "\<forall>cookie \<in> set (resp_Cookies resp). cookie_Name cookie \<noteq> ''SID''"
    and "sessionID c = []"
  shows "Login tr c username password =
           (Some (ErrMsg ''failed to get session ID from qbittorrent response''), c)"
  using assms by (simp add: Login_def storeSID_no_cookie)

text \<open>A success response with a session cookie of non-empty value: the value is stored.\<close>

lemma Login_stores_cookie:
  assumes "PostForm tr (baseURL c @ ''/api/v2/auth/login'')
             [(''username'', username), (''password'', password)] = Inr resp"
    and "resp_StatusCode resp = StatusOK"
    and "resp_Cookies resp = before @ sid # after"
    and "\<forall>cookie \<in> set before. cookie_Name cookie \<noteq> ''SID''"
    and "cookie_Name sid = ''SID''" and "cookie_Value sid \<noteq> []"
  shows "Login tr c username password = (None, c\<lparr>sessionID := cookie_Value sid\<rparr>)"
  using assms by (simp add: Login_def storeSID_first_cookie)

text \<open>
  Claim C5: a response with success status and no session cookie makes \<^verbatim>\<open>Login\<close> return
  an error, and a successful \<^verbatim>\<open>Login\<close> stores the token of the response's session cookie.
  The two lemmas above show this on a client whose session token is empty.  On a client
  that already holds a token it fails: the response below has success status and no
  cookie at all, and \<^verbatim>\<open>Login\<close> returns no error, because it tests the client's field and
  not whether the loop found a cookie.  The old token stays, and nothing from the
  response is stored.
\<close>

theorem Login_accepts_response_without_cookie:
  "resp_StatusCode (okResponse []) = StatusOK
   \<and> resp_Cookies (okResponse []) = []
   \<and> sessionID loggedInClient = ''old-session''
   \<and> Login (okTransport []) loggedInClient ''admin'' ''adminadmin'' = (None, loggedInClient)"
  by (simp add: Login_def okTransport_def okResponse_def loggedInClient_def StatusOK_def)

subsection \<open>Listing and looking up\<close>

lemma scanTorrents_absent:
  "\<forall>t \<in> set l. info_Hash t \<noteq> hash \<Longrightarrow> scanTorrents l hash = None"
  by (induction l) auto

lemma scanTorrents_first:
  "\<forall>t \<in> set before. info_Hash t \<noteq> hash \<Longrightarrow> info_Hash t = hash \<Longrightarrow>
   scanTorrents (before @ t # after) hash = Some t"
  by (induction before) auto

lemma scanTorrents_index:
  "i < length l \<Longrightarrow> info_Hash (l ! i) = hash \<Longrightarrow> \<forall>j < i. info_Hash (l ! j) \<noteq> hash \<Longrightarrow>
   scanTorrents l hash = Some (l ! i)"
proof (induction l arbitrary: i)
  case Nil
  then show ?case by simp
next
  case (Cons t l)
  show ?case
  proof (cases i)
    case 0
    with Cons.prems show ?thesis by simp
  next
    case (Suc k)
    from Cons.prems(3) Suc have head: "info_Hash t \<noteq> hash"
      by (metis nth_Cons_0 zero_less_Suc)
    have rest: "\<forall>j < k. info_Hash (l ! j) \<noteq> hash"
    proof (intro allI impI)
      fix j assume "j < k"
      then have "Suc j < i" using Suc by simp
      with Cons.prems(3) have "info_Hash ((t # l) ! Suc j) \<noteq> hash" by blast
      then show "info_Hash (l ! j) \<noteq> hash" by simp
    qed
    from Cons.prems Suc have "k < length l" "info_Hash (l ! k) = hash" by auto
    with Cons.IH rest have "scanTorrents l hash = Some (l ! k)" by blast
    with head Suc show ?thesis by simp
  qed
qed

lemma scanTorrents_Some:
  "scanTorrents l hash = Some t \<Longrightarrow> t \<in> set l \<and> info_Hash t = hash"
  by (induction l) (auto split: if_splits)

lemma GetTorrentsInfo_client: "snd (GetTorrentsInfo tr c) = c"
  by (simp add: GetTorrentsInfo_def Let_def split: option.splits sum.splits)

lemma GetTorrentInfo_client: "snd (GetTorrentInfo tr c hash) = c"
proof -
  obtain r c' where g: "GetTorrentsInfo tr c = (r, c')" by (cases "GetTorrentsInfo tr c")
  with GetTorrentsInfo_client [of tr c] have "c' = c" by simp
  with g show ?thesis by (cases r) (simp_all add: GetTorrentInfo_def)
qed

lemma AddTorrent_client: "snd (AddTorrent tr c magnetURI) = c"
  by (simp add: AddTorrent_def Let_def split: option.splits sum.splits)

lemma DeleteTorrent_client: "snd (DeleteTorrent tr c hash deleteFiles) = c"
  by (simp add: DeleteTorrent_def Let_def split: option.splits sum.splits)

lemma Login_baseURL: "baseURL (snd (Login tr c username password)) = baseURL c"
  by (simp add: Login_def Let_def storeSID_baseURL split: sum.splits)

lemma GetTorrentInfo_result:
  "fst (GetTorrentInfo tr c hash) =
     (case fst (GetTorrentsInfo tr c) of
        Inl e \<Rightarrow> Inl (ErrWrap ''failed to get torrents info list'' e)
      | Inr l \<Rightarrow> Inr (scanTorrents l hash))"
  by (cases "GetTorrentsInfo tr c") (simp add: GetTorrentInfo_def split: sum.splits)

text \<open>
  Claim C7.  When \<^verbatim>\<open>GetTorrentsInfo\<close> succeeds with a list in which no record has the
  hash, \<^verbatim>\<open>GetTorrentInfo\<close> returns \<^verbatim>\<open>nil, nil\<close>: no record and no error.  It returns an
  error exactly when \<^verbatim>\<open>GetTorrentsInfo\<close> fails, and the error is that failure, wrapped.
\<close>

theorem GetTorrentInfo_absent_is_no_error:
  "(\<forall>l. fst (GetTorrentsInfo tr c) = Inr l \<longrightarrow> (\<forall>t \<in> set l. info_Hash t \<noteq> hash) \<longrightarrow>
        fst (GetTorrentInfo tr c hash) = Inr None)
   \<and> (\<forall>e. fst (GetTorrentInfo tr c hash) = Inl e \<longleftrightarrow>
        (\<exists>e'. fst (GetTorrentsInfo tr c) = Inl e'
             \<and> e = ErrWrap ''failed to get torrents info list'' e'))"
  by (auto simp: GetTorrentInfo_result scanTorrents_absent split: sum.splits)

theorem GetTorrentInfo_absent_is_no_error_witness:
  "fst (GetTorrentsInfo (okTransport [exampleInfo ''abc'' ''one'' ''downloading'']) freshClient)
     = Inr [exampleInfo ''abc'' ''one'' ''downloading'']
   \<and> fst (GetTorrentInfo (okTransport [exampleInfo ''abc'' ''one'' ''downloading'']) freshClient
            ''xyz'') = Inr None
   \<and> fst (GetTorrentsInfo downTransport freshClient)
     = Inl (ErrWrap ''failed to get torrents info list'' (ErrExternal ''connection refused''))
   \<and> fst (GetTorrentInfo downTransport freshClient ''xyz'')
     = Inl (ErrWrap ''failed to get torrents info list''
             (ErrWrap ''failed to get torrents info list'' (ErrExternal ''connection refused'')))"
proof -
  let ?l = "[exampleInfo ''abc'' ''one'' ''downloading'']"
  have ok: "fst (GetTorrentsInfo (okTransport ?l) freshClient) = Inr ?l"
    by (simp add: GetTorrentsInfo_def okTransport_def okResponse_def StatusOK_def)
  have absent: "\<forall>t \<in> set ?l. info_Hash t \<noteq> ''xyz''"
    by (simp add: exampleInfo_def)
  have down: "fst (GetTorrentsInfo downTransport freshClient)
     = Inl (ErrWrap ''failed to get torrents info list'' (ErrExternal ''connection refused''))"
    by (simp add: GetTorrentsInfo_def downTransport_def)
  from GetTorrentInfo_absent_is_no_error [of "okTransport ?l" freshClient "''xyz''"] ok absent
  have 1: "fst (GetTorrentInfo (okTransport ?l) freshClient ''xyz'') = Inr None"
    by blast
  from GetTorrentInfo_absent_is_no_error [of downTransport freshClient "''xyz''"] down
  have 2: "fst (GetTorrentInfo downTransport freshClient ''xyz'')
     = Inl (ErrWrap ''failed to get torrents info list''
             (ErrWrap ''failed to get torrents info list'' (ErrExternal ''connection refused'')))"
    by blast
  from ok 1 down 2 show ?thesis by blast
qed

text \<open>
  Claim C10.  When \<^verbatim>\<open>GetTorrentsInfo\<close> succeeds with a list, and \<open>i\<close> is the lowest index of
  a record with the hash, \<^verbatim>\<open>GetTorrentInfo\<close> returns the record at \<open>i\<close>, however many later
  records have the same hash.
\<close>

theorem GetTorrentInfo_first_match:
  assumes "fst (GetTorrentsInfo tr c) = Inr l"
    and "i < length l" and "info_Hash (l ! i) = hash"
    and "\<forall>j < i. info_Hash (l ! j) \<noteq> hash"
  shows "fst (GetTorrentInfo tr c hash) = Inr (Some (l ! i))"
  using assms by (simp add: GetTorrentInfo_result scanTorrents_index)

theorem GetTorrentInfo_first_match_witness:
  "fst (GetTorrentInfo
          (okTransport [exampleInfo ''abc'' ''one'' ''downloading'',
                        exampleInfo ''xyz'' ''two'' ''downloading'',
                        exampleInfo ''xyz'' ''three'' ''uploading''])
          freshClient ''xyz'')
     = Inr (Some (exampleInfo ''xyz'' ''two'' ''downloading''))"
proof -
  let ?l = "[exampleInfo ''abc'' ''one'' ''downloading'',
             exampleInfo ''xyz'' ''two'' ''downloading'',
             exampleInfo ''xyz'' ''three'' ''uploading'']"
  have ok: "fst (GetTorrentsInfo (okTransport ?l) freshClient) = Inr ?l"
    by (simp add: GetTorrentsInfo_def okTransport_def okResponse_def StatusOK_def)
  have len: "(1::nat) < length ?l" by simp
  have at: "info_Hash (?l ! 1) = ''xyz''" by (simp add: exampleInfo_def)
  have before: "\<forall>j < (1::nat). info_Hash (?l ! j) \<noteq> ''xyz''" by (simp add: exampleInfo_def)
  from GetTorrentInfo_first_match [OF ok len at before] show ?thesis by simp
qed

text \<open>
  Claim C9.  \<^verbatim>\<open>GetTorrentsInfo\<close>, \<^verbatim>\<open>GetTorrentInfo\<close>, \<^verbatim>\<open>AddTorrent\<close> and \<^verbatim>\<open>DeleteTorrent\<close>
  leave the client as it was, session token and base URL, whatever the transport answers;
  \<^verbatim>\<open>Login\<close>, the one operation that writes the session token, leaves the base URL.
\<close>

theorem client_operations_frame:
  "snd (GetTorrentsInfo tr c) = c
   \<and> snd (GetTorrentInfo tr c hash) = c
   \<and> snd (AddTorrent tr c magnetURI) = c
   \<and> snd (DeleteTorrent tr c hash deleteFiles) = c
   \<and> baseURL (snd (Login tr c username password)) = baseURL c"
  by (simp add: GetTorrentsInfo_client GetTorrentInfo_client AddTorrent_client
      DeleteTorrent_client Login_baseURL)

section \<open>Properties of the reconciliation controller\<close>

subsection \<open>Conditions\<close>

lemma SetStatusCondition_find:
  "\<exists>c. FindStatusCondition (SetStatusCondition now conditions new) (cond_Type new) = Some c
       \<and> cond_Status c = cond_Status new \<and> cond_Reason c = cond_Reason new
       \<and> cond_Message c = cond_Message new
       \<and> cond_ObservedGeneration c = cond_ObservedGeneration new"
  by (induction conditions) (auto simp: FindStatusCondition_def updateExisting_def Let_def)

text \<open>Setting a condition that the list already shows, first of its type, changes nothing.\<close>

lemma SetStatusCondition_noop:
  "FindStatusCondition conditions (cond_Type new) = Some c \<Longrightarrow>
   cond_Status c = cond_Status new \<Longrightarrow> cond_Reason c = cond_Reason new \<Longrightarrow>
   cond_Message c = cond_Message new \<Longrightarrow>
   cond_ObservedGeneration c = cond_ObservedGeneration new \<Longrightarrow>
   SetStatusCondition now conditions new = conditions"
  by (induction conditions)
     (auto simp: FindStatusCondition_def updateExisting_def Let_def split: if_splits)

lemma RemoveStatusCondition_find:
  "ty \<noteq> removed \<Longrightarrow>
   FindStatusCondition (RemoveStatusCondition conditions removed) ty
     = FindStatusCondition conditions ty"
  by (induction conditions) (auto simp: FindStatusCondition_def RemoveStatusCondition_def)

lemma RemoveStatusCondition_idem:
  "RemoveStatusCondition (RemoveStatusCondition conditions ty) ty
     = RemoveStatusCondition conditions ty"
  by (simp add: RemoveStatusCondition_def)

lemma types_differ: "TypeDegradedTorrent \<noteq> TypeAvailableTorrent"
  by (simp add: TypeDegradedTorrent_def TypeAvailableTorrent_def)

lemma setConditions_simps:
  "Name (setConditions t cs) = Name t"
  "DeletionTimestamp (setConditions t cs) = DeletionTimestamp t"
  "Finalizers (setConditions t cs) = Finalizers t"
  "Spec (setConditions t cs) = Spec t"
  "status_Conditions (Status (setConditions t cs)) = cs"
  "status_Hash (Status (setConditions t cs)) = status_Hash (Status t)"
  "fieldsMatch (setConditions t cs) info = fieldsMatch t info"
  by (simp_all add: setConditions_def fieldsMatch_def)

lemma setConditions_same: "setConditions t (status_Conditions (Status t)) = t"
  by (simp add: setConditions_def)

lemma setDegradedCondition_meta:
  "Finalizers (setDegradedCondition env t reason message) = Finalizers t"
  "DeletionTimestamp (setDegradedCondition env t reason message) = DeletionTimestamp t"
  "Spec (setDegradedCondition env t reason message) = Spec t"
  by (simp_all add: setDegradedCondition_def Let_def setConditions_simps)

lemma setAvailableCondition_meta:
  "Finalizers (setAvailableCondition env t reason message) = Finalizers t"
  "DeletionTimestamp (setAvailableCondition env t reason message) = DeletionTimestamp t"
  "Spec (setAvailableCondition env t reason message) = Spec t"
  "fieldsMatch (setAvailableCondition env t reason message) info = fieldsMatch t info"
  by (simp_all add: setAvailableCondition_def Let_def setConditions_simps)

lemma setDegradedCondition_find:
  "\<exists>c. FindStatusCondition (status_Conditions (Status (setDegradedCondition env t reason message)))
          TypeDegradedTorrent = Some c
       \<and> cond_Status c = ConditionTrue \<and> cond_Reason c = reason \<and> cond_Message c = message"
proof -
  let ?new = "\<lparr>cond_Type = TypeDegradedTorrent, cond_Status = ConditionTrue,
               cond_ObservedGeneration = 0, cond_LastTransitionTime = Now env,
               cond_Reason = reason, cond_Message = message\<rparr>"
  from SetStatusCondition_find [of "Now env" "status_Conditions (Status t)" ?new]
  obtain c where
    "FindStatusCondition (SetStatusCondition (Now env) (status_Conditions (Status t)) ?new)
       TypeDegradedTorrent = Some c"
    and "cond_Status c = ConditionTrue" and "cond_Reason c = reason"
    and "cond_Message c = message"
    by auto
  then show ?thesis
    by (simp add: setDegradedCondition_def Let_def setConditions_simps
        RemoveStatusCondition_find [OF types_differ])
qed

lemma setAvailableCondition_find:
  "\<exists>c. FindStatusCondition (status_Conditions (Status (setAvailableCondition env t reason message)))
          TypeAvailableTorrent = Some c
       \<and> cond_Status c = ConditionTrue \<and> cond_Reason c = reason \<and> cond_Message c = message
       \<and> cond_ObservedGeneration c = 0"
proof -
  let ?new = "\<lparr>cond_Type = TypeAvailableTorrent, cond_Status = ConditionTrue,
               cond_ObservedGeneration = 0, cond_LastTransitionTime = Now env,
               cond_Reason = reason, cond_Message = message\<rparr>"
  from SetStatusCondition_find [of "Now env" "status_Conditions (Status t)" ?new]
  obtain c where
    "FindStatusCondition (SetStatusCondition (Now env) (status_Conditions (Status t)) ?new)
       TypeAvailableTorrent = Some c"
    and "cond_Status c = ConditionTrue" and "cond_Reason c = reason"
    and "cond_Message c = message" and "cond_ObservedGeneration c = 0"
    by auto
  then show ?thesis
    by (simp add: setAvailableCondition_def Let_def setConditions_simps
        RemoveStatusCondition_find [OF types_differ [symmetric]])
qed

text \<open>Setting the Available condition a second time, with the same reason and message.\<close>

lemma setAvailableCondition_idem:
  "setAvailableCondition env2 (setAvailableCondition env1 t reason message) reason message
     = setAvailableCondition env1 t reason message"
proof -
  let ?t1 = "setAvailableCondition env1 t reason message"
  let ?cs1 = "status_Conditions (Status ?t1)"
  let ?new = "\<lparr>cond_Type = TypeAvailableTorrent, cond_Status = ConditionTrue,
               cond_ObservedGeneration = 0, cond_LastTransitionTime = Now env2,
               cond_Reason = reason, cond_Message = message\<rparr>"
  from setAvailableCondition_find [of env1 t reason message]
  obtain c where "FindStatusCondition ?cs1 (cond_Type ?new) = Some c"
    and "cond_Status c = cond_Status ?new" and "cond_Reason c = cond_Reason ?new"
    and "cond_Message c = cond_Message ?new"
    and "cond_ObservedGeneration c = cond_ObservedGeneration ?new"
    by auto
  then have set: "SetStatusCondition (Now env2) ?cs1 ?new = ?cs1"
    by (rule SetStatusCondition_noop)
  have "\<exists>cs. ?cs1 = RemoveStatusCondition cs TypeDegradedTorrent"
    by (auto simp: setAvailableCondition_def Let_def setConditions_simps)
  then have rem: "RemoveStatusCondition ?cs1 TypeDegradedTorrent = ?cs1"
    by (auto simp: RemoveStatusCondition_idem)
  have "setAvailableCondition env2 ?t1 reason message = setConditions ?t1 ?cs1"
    unfolding setAvailableCondition_def [of env2] Let_def set rem ..
  then show ?thesis by (simp add: setConditions_same)
qed

lemma setDegradedCondition_no_available:
  "\<forall>c \<in> set (status_Conditions (Status (setDegradedCondition env t reason message))).
     cond_Type c \<noteq> TypeAvailableTorrent"
  by (simp add: setDegradedCondition_def Let_def setConditions_simps RemoveStatusCondition_def)

lemma setAvailableCondition_no_degraded:
  "\<forall>c \<in> set (status_Conditions (Status (setAvailableCondition env t reason message))).
     cond_Type c \<noteq> TypeDegradedTorrent"
  by (simp add: setAvailableCondition_def Let_def setConditions_simps RemoveStatusCondition_def)

lemma setDegradedCondition_exclusive:
  "exclusive (status_Conditions (Status (setDegradedCondition env t reason message)))"
  using setDegradedCondition_no_available [of env t reason message]
  by (auto simp: exclusive_def)

lemma setAvailableCondition_exclusive:
  "exclusive (status_Conditions (Status (setAvailableCondition env t reason message)))"
  using setAvailableCondition_no_degraded [of env t reason message]
  by (auto simp: exclusive_def)

subsection \<open>The field-by-field diff\<close>

lemma diff_steps:
  "(if status_Hash s \<noteq> h then (True, s\<lparr>status_Hash := h\<rparr>) else (u, s))
     = (u \<or> status_Hash s \<noteq> h, s\<lparr>status_Hash := h\<rparr>)"
  "(if status_Name s \<noteq> n then (True, s\<lparr>status_Name := n\<rparr>) else (u, s))
     = (u \<or> status_Name s \<noteq> n, s\<lparr>status_Name := n\<rparr>)"
  "(if status_State s \<noteq> st then (True, s\<lparr>status_State := st\<rparr>) else (u, s))
     = (u \<or> status_State s \<noteq> st, s\<lparr>status_State := st\<rparr>)"
  "(if status_TotalSize s \<noteq> ts then (True, s\<lparr>status_TotalSize := ts\<rparr>) else (u, s))
     = (u \<or> status_TotalSize s \<noteq> ts, s\<lparr>status_TotalSize := ts\<rparr>)"
  "(if status_ContentPath s \<noteq> cp then (True, s\<lparr>status_ContentPath := cp\<rparr>) else (u, s))
     = (u \<or> status_ContentPath s \<noteq> cp, s\<lparr>status_ContentPath := cp\<rparr>)"
  "(if status_AddedOn s \<noteq> ao then (True, s\<lparr>status_AddedOn := ao\<rparr>) else (u, s))
     = (u \<or> status_AddedOn s \<noteq> ao, s\<lparr>status_AddedOn := ao\<rparr>)"
  "(if status_TimeActive s \<noteq> ta then (True, s\<lparr>status_TimeActive := ta\<rparr>) else (u, s))
     = (u \<or> status_TimeActive s \<noteq> ta, s\<lparr>status_TimeActive := ta\<rparr>)"
  "(if status_AmountLeft s \<noteq> al then (True, s\<lparr>status_AmountLeft := al\<rparr>) else (u, s))
     = (u \<or> status_AmountLeft s \<noteq> al, s\<lparr>status_AmountLeft := al\<rparr>)"
  by auto

text \<open>
  The diff reports a change exactly when some field does not match, and leaves every
  observed field equal to the remote record's.
\<close>

lemma updateTorrentStatus_eq:
  "updateTorrentStatus t info =
     (\<not> fieldsMatch t info,
      t\<lparr>Status := (Status t)
          \<lparr>status_Hash := info_Hash info, status_Name := info_Name info,
           status_State := info_State info, status_TotalSize := info_TotalSize info,
           status_ContentPath := info_ContentPath info, status_AddedOn := info_AddedOn info,
           status_TimeActive := info_TimeActive info,
           status_AmountLeft := info_AmountLeft info\<rparr>\<rparr>)"
  unfolding updateTorrentStatus_def Let_def diff_steps
  by (auto simp: fieldsMatch_def)

lemma updateTorrentStatus_match:
  "fieldsMatch t info \<Longrightarrow> updateTorrentStatus t info = (False, t)"
  by (simp add: updateTorrentStatus_eq) (simp add: fieldsMatch_def)

lemma fieldsMatch_updated: "fieldsMatch (snd (updateTorrentStatus t info)) info"
  by (simp add: updateTorrentStatus_eq fieldsMatch_def)

lemma updateTorrentStatus_meta:
  "DeletionTimestamp (snd (updateTorrentStatus t info)) = DeletionTimestamp t"
  "Finalizers (snd (updateTorrentStatus t info)) = Finalizers t"
  "Spec (snd (updateTorrentStatus t info)) = Spec t"
  "status_Conditions (Status (snd (updateTorrentStatus t info))) = status_Conditions (Status t)"
  by (simp_all add: updateTorrentStatus_eq)


subsection \<open>Writes to the store\<close>

lemma Update_failed:
  "UpdateErr env t = Some e \<Longrightarrow>
   Update env t w = (Some e, t, w\<lparr>calls := calls w @ [CallUpdate t (Some e)]\<rparr>)"
  by (simp add: Update_def)

lemma Update_ok:
  "UpdateErr env t = None \<Longrightarrow> stored w = Some s \<Longrightarrow>
   Update env t w = (None, t\<lparr>Status := Status s\<rparr>,
      w\<lparr>stored := afterUpdate (t\<lparr>Status := Status s\<rparr>),
        calls := calls w @ [CallUpdate t None]\<rparr>)"
  by (simp add: Update_def Let_def)

lemma afterUpdate_kept:
  "IsZero (DeletionTimestamp s) \<or> Finalizers s \<noteq> [] \<Longrightarrow> afterUpdate s = Some s"
  by (auto simp: afterUpdate_def)

lemma afterUpdate_cases: "afterUpdate s = None \<or> afterUpdate s = Some s"
  by (simp add: afterUpdate_def)

lemma StatusUpdate_failed:
  "StatusUpdateErr env site t = Some e \<Longrightarrow>
   StatusUpdate env site t w =
     (Some e, t, w\<lparr>calls := calls w @ [CallStatusUpdate site t (Some e)]\<rparr>)"
  by (simp add: StatusUpdate_def)

lemma StatusUpdate_ok:
  "StatusUpdateErr env site t = None \<Longrightarrow> stored w = Some s \<Longrightarrow>
   StatusUpdate env site t w = (None, s\<lparr>Status := Status t\<rparr>,
      w\<lparr>stored := Some (s\<lparr>Status := Status t\<rparr>),
        calls := calls w @ [CallStatusUpdate site t None]\<rparr>)"
  by (simp add: StatusUpdate_def Let_def)

text \<open>
  What every write does, whatever the store answers: one call is added to the trace, the
  client is left alone, and exclusive conditions stay exclusive in memory and in the store.
\<close>

lemma Update_calls:
  "calls (snd (snd (Update env t w))) = calls w @ [CallUpdate t (fst (Update env t w))]"
  by (auto simp: Update_def Let_def split: option.splits)

lemma StatusUpdate_calls:
  "calls (snd (snd (StatusUpdate env site t w)))
     = calls w @ [CallStatusUpdate site t (fst (StatusUpdate env site t w))]"
  by (auto simp: StatusUpdate_def Let_def split: option.splits)

lemma Update_exclusive:
  "exclusive (status_Conditions (Status t)) \<Longrightarrow> storedExclusive w \<Longrightarrow>
   exclusive (status_Conditions (Status (fst (snd (Update env t w)))))
   \<and> storedExclusive (snd (snd (Update env t w)))"
  by (auto simp: Update_def Let_def storedExclusive_def afterUpdate_def split: option.splits)

lemma StatusUpdate_exclusive:
  "exclusive (status_Conditions (Status t)) \<Longrightarrow> storedExclusive w \<Longrightarrow>
   exclusive (status_Conditions (Status (fst (snd (StatusUpdate env site t w)))))
   \<and> storedExclusive (snd (snd (StatusUpdate env site t w)))"
  by (auto simp: StatusUpdate_def Let_def storedExclusive_def split: option.splits)

lemma persistAndRequeue_failed:
  "StatusUpdateErr env site t = Some e \<Longrightarrow>
   persistAndRequeue env site delay t w =
     \<lparr>result = \<lparr>RequeueAfter = delay\<rparr>, err = None, object = t,
      world = w\<lparr>calls := calls w @ [CallStatusUpdate site t (Some e)]\<rparr>\<rparr>"
  by (simp add: persistAndRequeue_def StatusUpdate_failed)

lemma persistAndRequeue_ok:
  "StatusUpdateErr env site t = None \<Longrightarrow> stored w = Some s \<Longrightarrow>
   persistAndRequeue env site delay t w =
     \<lparr>result = \<lparr>RequeueAfter = delay\<rparr>, err = None, object = s\<lparr>Status := Status t\<rparr>,
      world = w\<lparr>stored := Some (s\<lparr>Status := Status t\<rparr>),
                calls := calls w @ [CallStatusUpdate site t None]\<rparr>\<rparr>"
  by (simp add: persistAndRequeue_def StatusUpdate_ok)

lemma persistAndRequeue_result:
  "result (persistAndRequeue env site delay t w) = \<lparr>RequeueAfter = delay\<rparr>"
  "err (persistAndRequeue env site delay t w) = None"
  by (simp_all add: persistAndRequeue_def split: prod.splits)

lemma persistAndRequeue_calls:
  "\<exists>r. calls (world (persistAndRequeue env site delay t w))
         = calls w @ [CallStatusUpdate site t r]"
  using StatusUpdate_calls [of env site t w]
  by (auto simp: persistAndRequeue_def split: prod.splits)

lemma persistAndRequeue_exclusive:
  assumes "exclusive (status_Conditions (Status t))" and "storedExclusive w"
  shows "exclusive (status_Conditions (Status (object (persistAndRequeue env site delay t w))))
       \<and> storedExclusive (world (persistAndRequeue env site delay t w))"
  using StatusUpdate_exclusive [OF assms, of env site]
  by (auto simp: persistAndRequeue_def split: prod.splits)

lemma removeFinalizer_failed:
  "UpdateErr env (RemoveFinalizer t TorrentFinalizer) = Some e \<Longrightarrow>
   removeFinalizer env t w =
     \<lparr>result = noRequeue, err = Some e, object = RemoveFinalizer t TorrentFinalizer,
      world = w\<lparr>calls := calls w @ [CallUpdate (RemoveFinalizer t TorrentFinalizer) (Some e)]\<rparr>\<rparr>"
  by (simp add: removeFinalizer_def Update_failed)

lemma removeFinalizer_ok:
  "UpdateErr env (RemoveFinalizer t TorrentFinalizer) = None \<Longrightarrow> stored w = Some s \<Longrightarrow>
   removeFinalizer env t w =
     \<lparr>result = noRequeue, err = None,
      object = (RemoveFinalizer t TorrentFinalizer)\<lparr>Status := Status s\<rparr>,
      world = w\<lparr>stored := afterUpdate ((RemoveFinalizer t TorrentFinalizer)\<lparr>Status := Status s\<rparr>),
                calls := calls w @ [CallUpdate (RemoveFinalizer t TorrentFinalizer) None]\<rparr>\<rparr>"
  by (simp add: removeFinalizer_def Update_ok)

lemma removeFinalizer_result: "result (removeFinalizer env t w) = noRequeue"
  by (simp add: removeFinalizer_def split: prod.splits option.splits)

lemma removeFinalizer_calls:
  "calls (world (removeFinalizer env t w)) =
     calls w @ [CallUpdate (RemoveFinalizer t TorrentFinalizer) (err (removeFinalizer env t w))]"
  using Update_calls [of env "RemoveFinalizer t TorrentFinalizer" w]
  by (auto simp: removeFinalizer_def split: prod.splits option.splits)

lemma removeFinalizer_exclusive:
  assumes "exclusive (status_Conditions (Status t))" and "storedExclusive w"
  shows "exclusive (status_Conditions (Status (object (removeFinalizer env t w))))
       \<and> storedExclusive (world (removeFinalizer env t w))"
proof -
  have "exclusive (status_Conditions (Status (RemoveFinalizer t TorrentFinalizer)))"
    using assms(1) by (simp add: RemoveFinalizer_def)
  from Update_exclusive [OF this assms(2), of env] show ?thesis
    by (auto simp: removeFinalizer_def split: prod.splits option.splits)
qed

subsection \<open>The paths of a pass\<close>

lemma Reconcile_deleting:
  "GetErr env = None \<Longrightarrow> stored w = Some t \<Longrightarrow> \<not> IsZero (DeletionTimestamp t) \<Longrightarrow>
   Reconcile env w = handleDeletion env t w"
  by (simp add: Reconcile_def)

lemma Reconcile_registering:
  "GetErr env = None \<Longrightarrow> stored w = Some t \<Longrightarrow> IsZero (DeletionTimestamp t) \<Longrightarrow>
   \<not> ContainsFinalizer t TorrentFinalizer \<Longrightarrow>
   Reconcile env w =
     (case Update env (t\<lparr>Finalizers := Finalizers t @ [TorrentFinalizer]\<rparr>) w of
        (Some e, torrent', w') \<Rightarrow>
          \<lparr>result = noRequeue, err = Some e, object = torrent', world = w'\<rparr>
      | (None, torrent', w') \<Rightarrow>
          \<lparr>result = \<lparr>RequeueAfter = 1 * Second\<rparr>, err = None, object = torrent', world = w'\<rparr>)"
  by (simp add: Reconcile_def AddFinalizer_def ContainsFinalizer_def)

lemma Reconcile_syncing:
  "GetErr env = None \<Longrightarrow> stored w = Some t \<Longrightarrow> IsZero (DeletionTimestamp t) \<Longrightarrow>
   ContainsFinalizer t TorrentFinalizer \<Longrightarrow> Reconcile env w = reconcile env t w"
  by (simp add: Reconcile_def)

lemma Reconcile_no_resource:
  "GetErr env \<noteq> None \<or> stored w = None \<Longrightarrow>
   Reconcile env w = \<lparr>result = noRequeue, err = GetErr env, object = emptyTorrent, world = w\<rparr>"
  by (auto simp: Reconcile_def split: option.splits)

lemma DeleteTorrent_eq:
  "DeleteTorrent tr c hash deleteFiles = (fst (DeleteTorrent tr c hash deleteFiles), c)"
  using DeleteTorrent_client [of tr c hash deleteFiles] by (simp add: prod_eq_iff)

lemma GetTorrentInfo_eq:
  "GetTorrentInfo tr c hash = (fst (GetTorrentInfo tr c hash), c)"
  using GetTorrentInfo_client [of tr c hash] by (simp add: prod_eq_iff)

lemma AddTorrent_eq:
  "AddTorrent tr c magnetURI = (fst (AddTorrent tr c magnetURI), c)"
  using AddTorrent_client [of tr c magnetURI] by (simp add: prod_eq_iff)

lemma handleDeletion_failed:
  assumes "status_Hash (Status t) \<noteq> []"
    and "fst (DeleteTorrent (http env) (qbt w) (status_Hash (Status t)) True) = Some e"
  shows "handleDeletion env t w =
     persistAndRequeue env DeleteFailed (10 * Second)
       (setDegradedCondition env t ''FailedToDeleteTorrent'' (Error e))
       (w\<lparr>calls := calls w @ [CallDeleteTorrent (status_Hash (Status t)) True]\<rparr>)"
  using assms DeleteTorrent_eq [of "http env" "qbt w" "status_Hash (Status t)" True]
  by (simp add: handleDeletion_def)

lemma handleDeletion_deleted:
  assumes "status_Hash (Status t) \<noteq> []"
    and "fst (DeleteTorrent (http env) (qbt w) (status_Hash (Status t)) True) = None"
  shows "handleDeletion env t w =
     removeFinalizer env t
       (w\<lparr>calls := calls w @ [CallDeleteTorrent (status_Hash (Status t)) True]\<rparr>)"
  using assms DeleteTorrent_eq [of "http env" "qbt w" "status_Hash (Status t)" True]
  by (simp add: handleDeletion_def)

lemma handleDeletion_no_hash:
  "status_Hash (Status t) = [] \<Longrightarrow> handleDeletion env t w = removeFinalizer env t w"
  by (simp add: handleDeletion_def)

lemma reconcile_malformed:
  "GetTorrentHash (spec_MagnetURI (Spec t)) = Inl e \<Longrightarrow>
   reconcile env t w = \<lparr>result = noRequeue, err = Some e, object = t, world = w\<rparr>"
  by (simp add: reconcile_def)

lemma reconcile_lookup_failed:
  assumes "GetTorrentHash (spec_MagnetURI (Spec t)) = Inr hash"
    and "fst (GetTorrentInfo (http env) (qbt w) hash) = Inl e"
  shows "reconcile env t w =
     persistAndRequeue env GetInfoFailed (10 * Second)
       (setDegradedCondition env t ''FailedToGetTorrentInfo'' (Error e))
       (w\<lparr>calls := calls w @ [CallGetTorrentInfo hash]\<rparr>)"
  using assms GetTorrentInfo_eq [of "http env" "qbt w" hash]
  by (simp add: reconcile_def)

lemma reconcile_add_failed:
  assumes "GetTorrentHash (spec_MagnetURI (Spec t)) = Inr hash"
    and "fst (GetTorrentInfo (http env) (qbt w) hash) = Inr None"
    and "fst (AddTorrent (http env) (qbt w) (spec_MagnetURI (Spec t))) = Some e"
  shows "reconcile env t w =
     persistAndRequeue env AddFailed (10 * Second)
       (setDegradedCondition env t ''FailedToAddTorrent'' (Error e))
       (w\<lparr>calls := calls w @ [CallGetTorrentInfo hash,
                               CallAddTorrent (spec_MagnetURI (Spec t))]\<rparr>)"
  using assms GetTorrentInfo_eq [of "http env" "qbt w" hash]
    AddTorrent_eq [of "http env" "qbt w" "spec_MagnetURI (Spec t)"]
  by (simp add: reconcile_def)

lemma reconcile_added:
  assumes "GetTorrentHash (spec_MagnetURI (Spec t)) = Inr hash"
    and "fst (GetTorrentInfo (http env) (qbt w) hash) = Inr None"
    and "fst (AddTorrent (http env) (qbt w) (spec_MagnetURI (Spec t))) = None"
  shows "reconcile env t w =
     persistAndRequeue env Added (5 * Second)
       (setAvailableCondition env t ''TorrentAdded'' ''Torrent added to qBittorrent'')
       (w\<lparr>calls := calls w @ [CallGetTorrentInfo hash,
                               CallAddTorrent (spec_MagnetURI (Spec t))]\<rparr>)"
  using assms GetTorrentInfo_eq [of "http env" "qbt w" hash]
    AddTorrent_eq [of "http env" "qbt w" "spec_MagnetURI (Spec t)"]
  by (simp add: reconcile_def)

lemma reconcile_unchanged:
  assumes "GetTorrentHash (spec_MagnetURI (Spec t)) = Inr hash"
    and "fst (GetTorrentInfo (http env) (qbt w) hash) = Inr (Some info)"
    and "fieldsMatch t info"
  shows "reconcile env t w = setActive env t (w\<lparr>calls := calls w @ [CallGetTorrentInfo hash]\<rparr>)"
  using assms GetTorrentInfo_eq [of "http env" "qbt w" hash]
  by (simp add: reconcile_def updateTorrentStatus_match)

lemma reconcile_changed:
  assumes "GetTorrentHash (spec_MagnetURI (Spec t)) = Inr hash"
    and "fst (GetTorrentInfo (http env) (qbt w) hash) = Inr (Some info)"
    and "\<not> fieldsMatch t info"
  shows "reconcile env t w =
     (case StatusUpdate env FieldsChanged (snd (updateTorrentStatus t info))
             (w\<lparr>calls := calls w @ [CallGetTorrentInfo hash]\<rparr>) of
        (Some e, torrent2, w2) \<Rightarrow>
          \<lparr>result = noRequeue, err = Some e, object = torrent2, world = w2\<rparr>
      | (None, torrent2, w2) \<Rightarrow> setActive env torrent2 w2)"
  using assms GetTorrentInfo_eq [of "http env" "qbt w" hash]
  by (simp add: reconcile_def updateTorrentStatus_eq)


subsection \<open>Deletion\<close>

lemma setDegradedCondition_Status:
  "t\<lparr>Status := Status (setDegradedCondition env t reason message)\<rparr>
     = setDegradedCondition env t reason message"
  by (simp add: setDegradedCondition_def setConditions_def Let_def)

text \<open>
  Claim C1.  A pass on a resource that carries a deletion marker.  If the observed hash
  is not empty and \<^verbatim>\<open>DeleteTorrent\<close> fails with \<open>e\<close>, then the pass sets the Degraded
  condition on the resource, with status True, reason \<open>FailedToDeleteTorrent\<close> and the
  message of \<open>e\<close>, and writes the status: its calls are the delete and that one status
  write, and no write of the resource.  After the pass the finalizers are what they were,
  in memory and in the store, so the finalizer token is still there; the resource in
  memory shows the Degraded condition; the store holds the resource with that condition
  when it took the status write, and the resource as it was when it refused it; and the
  pass returns a requeue after 10 seconds and no error either way.  If after the pass the
  finalizers differ in memory, or the store no longer holds a resource with the
  finalizers as they were, then the observed hash was empty or \<^verbatim>\<open>DeleteTorrent\<close>
  succeeded; and in those two cases, when the store takes the write of the resource, the
  token is gone from the resource in memory and from the store, which holds the resource
  without the token or, when no finalizer is left, no longer holds it.
\<close>

theorem deletion_guard:
  assumes "GetErr env = None" and "stored w = Some t" and "\<not> IsZero (DeletionTimestamp t)"
  shows "(status_Hash (Status t) \<noteq> []
          \<and> fst (DeleteTorrent (http env) (qbt w) (status_Hash (Status t)) True) = Some e \<longrightarrow>
            calls (world (Reconcile env w))
              = calls w @
                [CallDeleteTorrent (status_Hash (Status t)) True,
                 CallStatusUpdate DeleteFailed
                   (setDegradedCondition env t ''FailedToDeleteTorrent'' (Error e))
                   (StatusUpdateErr env DeleteFailed
                      (setDegradedCondition env t ''FailedToDeleteTorrent'' (Error e)))]
          \<and> Finalizers (object (Reconcile env w)) = Finalizers t
          \<and> (\<exists>c. FindStatusCondition (status_Conditions (Status (object (Reconcile env w))))
                     TypeDegradedTorrent = Some c
                 \<and> cond_Status c = ConditionTrue \<and> cond_Reason c = ''FailedToDeleteTorrent''
                 \<and> cond_Message c = Error e)
          \<and> stored (world (Reconcile env w))
              = Some (if StatusUpdateErr env DeleteFailed
                           (setDegradedCondition env t ''FailedToDeleteTorrent'' (Error e)) = None
                      then setDegradedCondition env t ''FailedToDeleteTorrent'' (Error e)
                      else t)
          \<and> (\<exists>s. stored (world (Reconcile env w)) = Some s \<and> Finalizers s = Finalizers t
                 \<and> (StatusUpdateErr env DeleteFailed
                       (setDegradedCondition env t ''FailedToDeleteTorrent'' (Error e)) = None \<longrightarrow>
                     (\<exists>c. FindStatusCondition (status_Conditions (Status s))
                             TypeDegradedTorrent = Some c
                         \<and> cond_Status c = ConditionTrue
                         \<and> cond_Reason c = ''FailedToDeleteTorrent''
                         \<and> cond_Message c = Error e)))
          \<and> result (Reconcile env w) = \<lparr>RequeueAfter = 10 * Second\<rparr>
          \<and> err (Reconcile env w) = None)
       \<and> (Finalizers (object (Reconcile env w)) \<noteq> Finalizers t
          \<or> \<not> (\<exists>s. stored (world (Reconcile env w)) = Some s \<and> Finalizers s = Finalizers t) \<longrightarrow>
            status_Hash (Status t) = []
          \<or> fst (DeleteTorrent (http env) (qbt w) (status_Hash (Status t)) True) = None)
       \<and> ((status_Hash (Status t) = []
           \<or> fst (DeleteTorrent (http env) (qbt w) (status_Hash (Status t)) True) = None)
          \<and> UpdateErr env (RemoveFinalizer t TorrentFinalizer) = None \<longrightarrow>
            \<not> ContainsFinalizer (object (Reconcile env w)) TorrentFinalizer
          \<and> stored (world (Reconcile env w))
              = (if filter (\<lambda>f. f \<noteq> TorrentFinalizer) (Finalizers t) = [] then None
                 else Some (RemoveFinalizer t TorrentFinalizer)))"
proof -
  let ?h = "status_Hash (Status t)"
  let ?out = "Reconcile env w"
  have pass: "?out = handleDeletion env t w"
    by (rule Reconcile_deleting [OF assms])
  have guard: "calls (world ?out)
              = calls w @
                [CallDeleteTorrent ?h True,
                 CallStatusUpdate DeleteFailed
                   (setDegradedCondition env t ''FailedToDeleteTorrent'' (Error x))
                   (StatusUpdateErr env DeleteFailed
                      (setDegradedCondition env t ''FailedToDeleteTorrent'' (Error x)))]
          \<and> Finalizers (object ?out) = Finalizers t
          \<and> (\<exists>c. FindStatusCondition (status_Conditions (Status (object ?out)))
                     TypeDegradedTorrent = Some c
                 \<and> cond_Status c = ConditionTrue \<and> cond_Reason c = ''FailedToDeleteTorrent''
                 \<and> cond_Message c = Error x)
          \<and> stored (world ?out)
              = Some (if StatusUpdateErr env DeleteFailed
                           (setDegradedCondition env t ''FailedToDeleteTorrent'' (Error x)) = None
                      then setDegradedCondition env t ''FailedToDeleteTorrent'' (Error x)
                      else t)
          \<and> (\<exists>s. stored (world ?out) = Some s \<and> Finalizers s = Finalizers t
                 \<and> (StatusUpdateErr env DeleteFailed
                       (setDegradedCondition env t ''FailedToDeleteTorrent'' (Error x)) = None \<longrightarrow>
                     (\<exists>c. FindStatusCondition (status_Conditions (Status s))
                             TypeDegradedTorrent = Some c
                         \<and> cond_Status c = ConditionTrue
                         \<and> cond_Reason c = ''FailedToDeleteTorrent''
                         \<and> cond_Message c = Error x)))
          \<and> result ?out = \<lparr>RequeueAfter = 10 * Second\<rparr> \<and> err ?out = None"
    if hash: "?h \<noteq> []" and failed: "fst (DeleteTorrent (http env) (qbt w) ?h True) = Some x"
    for x
  proof -
    let ?d = "setDegradedCondition env t ''FailedToDeleteTorrent'' (Error x)"
    let ?w1 = "w\<lparr>calls := calls w @ [CallDeleteTorrent ?h True]\<rparr>"
    have out: "?out = persistAndRequeue env DeleteFailed (10 * Second) ?d ?w1"
      using pass handleDeletion_failed [OF hash failed] by simp
    have st: "stored ?w1 = Some t" using assms(2) by simp
    note cond = setDegradedCondition_find [of env t "''FailedToDeleteTorrent''" "Error x"]
    show ?thesis
    proof (cases "StatusUpdateErr env DeleteFailed ?d")
      case None
      from persistAndRequeue_ok [OF None st, of "10 * Second"] out cond None
      show ?thesis
        by (simp add: setDegradedCondition_meta setDegradedCondition_Status)
    next
      case (Some y)
      from persistAndRequeue_failed [OF Some, of "10 * Second" ?w1] out cond assms(2) Some
      show ?thesis by (simp add: setDegradedCondition_meta)
    qed
  qed
  have only: "?h = [] \<or> fst (DeleteTorrent (http env) (qbt w) ?h True) = None"
    if changed: "Finalizers (object ?out) \<noteq> Finalizers t
          \<or> \<not> (\<exists>s. stored (world ?out) = Some s \<and> Finalizers s = Finalizers t)"
  proof (rule ccontr)
    assume "\<not> (?h = [] \<or> fst (DeleteTorrent (http env) (qbt w) ?h True) = None)"
    then obtain x where "?h \<noteq> []" "fst (DeleteTorrent (http env) (qbt w) ?h True) = Some x"
      by auto
    from guard [OF this] changed show False by blast
  qed
  have removed: "\<not> ContainsFinalizer (object ?out) TorrentFinalizer
          \<and> stored (world ?out)
              = (if filter (\<lambda>f. f \<noteq> TorrentFinalizer) (Finalizers t) = [] then None
                 else Some (RemoveFinalizer t TorrentFinalizer))"
    if ok: "?h = [] \<or> fst (DeleteTorrent (http env) (qbt w) ?h True) = None"
      and upd: "UpdateErr env (RemoveFinalizer t TorrentFinalizer) = None"
  proof -
    from ok obtain w1 where out: "?out = removeFinalizer env t w1" and st: "stored w1 = Some t"
      using pass handleDeletion_no_hash [of t env w] handleDeletion_deleted [of t env w] assms(2)
      by (cases "?h = []") auto
    have same: "(RemoveFinalizer t TorrentFinalizer)\<lparr>Status := Status t\<rparr>
                  = RemoveFinalizer t TorrentFinalizer"
      by (simp add: RemoveFinalizer_def)
    from removeFinalizer_ok [OF upd st] out assms(3) show ?thesis
      by (simp add: same afterUpdate_def) (simp add: ContainsFinalizer_def RemoveFinalizer_def)
  qed
  from guard only removed show ?thesis by blast
qed

theorem deletion_guard_witness:
  "GetErr (storeUp downTransport) = None
   \<and> stored (startWorld deletingTorrent) = Some deletingTorrent
   \<and> \<not> IsZero (DeletionTimestamp deletingTorrent)
   \<and> status_Hash (Status deletingTorrent) \<noteq> []
   \<and> fst (DeleteTorrent (http (storeUp downTransport)) (qbt (startWorld deletingTorrent))
            (status_Hash (Status deletingTorrent)) True)
       = Some (ErrWrap ''failed to delete torrent'' (ErrExternal ''connection refused''))
   \<and> StatusUpdateErr (storeUp downTransport) DeleteFailed
        (setDegradedCondition (storeUp downTransport) deletingTorrent ''FailedToDeleteTorrent''
           ''failed to delete torrent: connection refused'') = None
   \<and> Finalizers (object (Reconcile (storeUp downTransport) (startWorld deletingTorrent)))
       = [TorrentFinalizer]
   \<and> stored (world (Reconcile (storeUp downTransport) (startWorld deletingTorrent)))
       = Some (setDegradedCondition (storeUp downTransport) deletingTorrent
                 ''FailedToDeleteTorrent'' ''failed to delete torrent: connection refused'')
   \<and> status_Conditions (Status (setDegradedCondition (storeUp downTransport) deletingTorrent
         ''FailedToDeleteTorrent'' ''failed to delete torrent: connection refused''))
       = [\<lparr>cond_Type = ''Degraded'', cond_Status = ''True'', cond_ObservedGeneration = 0,
           cond_LastTransitionTime = 1700000200, cond_Reason = ''FailedToDeleteTorrent'',
           cond_Message = ''failed to delete torrent: connection refused''\<rparr>]
   \<and> result (Reconcile (storeUp downTransport) (startWorld deletingTorrent))
       = \<lparr>RequeueAfter = 10 * Second\<rparr>
   \<and> err (Reconcile (storeUp downTransport) (startWorld deletingTorrent)) = None"
proof -
  let ?env = "storeUp downTransport" and ?w = "startWorld deletingTorrent"
  let ?e = "ErrWrap ''failed to delete torrent'' (ErrExternal ''connection refused'')"
  let ?d = "setDegradedCondition ?env deletingTorrent ''FailedToDeleteTorrent''
              ''failed to delete torrent: connection refused''"
  have h1: "GetErr ?env = None" by (simp add: storeUp_def)
  have h2: "stored ?w = Some deletingTorrent" by (simp add: startWorld_def)
  have h3: "\<not> IsZero (DeletionTimestamp deletingTorrent)"
    by (simp add: IsZero_def deletingTorrent_def)
  have h4: "status_Hash (Status deletingTorrent) \<noteq> []"
    by (simp add: deletingTorrent_def syncedTorrent_def)
  have h5: "fst (DeleteTorrent (http ?env) (qbt ?w) (status_Hash (Status deletingTorrent)) True)
       = Some ?e"
    by (simp add: DeleteTorrent_def storeDown_def storeUp_def downTransport_def)
  have h6: "StatusUpdateErr ?env DeleteFailed x = None" for x by (simp add: storeUp_def)
  have m: "Error ?e = ''failed to delete torrent: connection refused''" by simp
  have f: "Finalizers deletingTorrent = [TorrentFinalizer]"
    by (simp add: deletingTorrent_def syncedTorrent_def)
  have c: "status_Conditions (Status ?d)
       = [\<lparr>cond_Type = ''Degraded'', cond_Status = ''True'', cond_ObservedGeneration = 0,
           cond_LastTransitionTime = 1700000200, cond_Reason = ''FailedToDeleteTorrent'',
           cond_Message = ''failed to delete torrent: connection refused''\<rparr>]"
    by (simp add: setDegradedCondition_def setConditions_def RemoveStatusCondition_def
        updateExisting_def deletingTorrent_def syncedTorrent_def availableCondition_def
        storeUp_def TypeDegradedTorrent_def TypeAvailableTorrent_def ConditionTrue_def Let_def)
  from deletion_guard [OF h1 h2 h3, of ?e] h4 h5 h6 f
  have "Finalizers (object (Reconcile ?env ?w)) = [TorrentFinalizer]
      \<and> stored (world (Reconcile ?env ?w)) = Some ?d
      \<and> result (Reconcile ?env ?w) = \<lparr>RequeueAfter = 10 * Second\<rparr>
      \<and> err (Reconcile ?env ?w) = None"
    unfolding m by simp
  with h1 h2 h3 h4 h5 h6 c show ?thesis by blast
qed

subsection \<open>Registering the finalizer\<close>

text \<open>
  Claim C8, as the code has it.  A pass on a resource that has no deletion marker and does
  not carry the finalizer token makes one call and no other: the write of the resource
  with the token appended to its finalizers.  It makes no call to the remote service, and
  the status is not touched.  If the store takes the write, the pass returns a requeue
  after 1 second and the stored resource carries the token; if the store refuses it, the
  pass returns the store's error and no requeue delay, and the store is as it was.
\<close>

theorem finalizer_registration:
  assumes "GetErr env = None" and "stored w = Some t" and "IsZero (DeletionTimestamp t)"
    and "\<not> ContainsFinalizer t TorrentFinalizer"
  shows "calls (world (Reconcile env w))
           = calls w @ [CallUpdate (t\<lparr>Finalizers := Finalizers t @ [TorrentFinalizer]\<rparr>)
                          (UpdateErr env (t\<lparr>Finalizers := Finalizers t @ [TorrentFinalizer]\<rparr>))]
       \<and> filter isRemoteCall (calls (world (Reconcile env w))) = filter isRemoteCall (calls w)
       \<and> qbt (world (Reconcile env w)) = qbt w
       \<and> object (Reconcile env w) = t\<lparr>Finalizers := Finalizers t @ [TorrentFinalizer]\<rparr>
       \<and> (UpdateErr env (t\<lparr>Finalizers := Finalizers t @ [TorrentFinalizer]\<rparr>) = None \<longrightarrow>
            result (Reconcile env w) = \<lparr>RequeueAfter = 1 * Second\<rparr>
          \<and> err (Reconcile env w) = None
          \<and> stored (world (Reconcile env w))
              = Some (t\<lparr>Finalizers := Finalizers t @ [TorrentFinalizer]\<rparr>))
       \<and> (\<forall>e. UpdateErr env (t\<lparr>Finalizers := Finalizers t @ [TorrentFinalizer]\<rparr>) = Some e \<longrightarrow>
            result (Reconcile env w) = noRequeue
          \<and> err (Reconcile env w) = Some e
          \<and> stored (world (Reconcile env w)) = Some t)"
proof -
  let ?t1 = "t\<lparr>Finalizers := Finalizers t @ [TorrentFinalizer]\<rparr>"
  note pass = Reconcile_registering [OF assms]
  have same: "?t1\<lparr>Status := Status t\<rparr> = ?t1" by simp
  show ?thesis
  proof (cases "UpdateErr env ?t1")
    case None
    from Update_ok [OF None assms(2)] pass None assms(2) assms(3) show ?thesis
      by (simp add: same afterUpdate_def)
  next
    case (Some e)
    from Update_failed [OF Some, of w] pass Some assms(2) show ?thesis
      by simp
  qed
qed

theorem finalizer_registration_witness:
  "GetErr (storeUp downTransport) = None
   \<and> stored (startWorld newTorrent) = Some newTorrent
   \<and> IsZero (DeletionTimestamp newTorrent)
   \<and> \<not> ContainsFinalizer newTorrent TorrentFinalizer
   \<and> UpdateErr (storeUp downTransport) (newTorrent\<lparr>Finalizers := [TorrentFinalizer]\<rparr>) = None
   \<and> calls (world (Reconcile (storeUp downTransport) (startWorld newTorrent)))
       = [CallUpdate (newTorrent\<lparr>Finalizers := [TorrentFinalizer]\<rparr>) None]
   \<and> result (Reconcile (storeUp downTransport) (startWorld newTorrent))
       = \<lparr>RequeueAfter = 1 * Second\<rparr>
   \<and> err (Reconcile (storeUp downTransport) (startWorld newTorrent)) = None
   \<and> stored (world (Reconcile (storeUp downTransport) (startWorld newTorrent)))
       = Some (newTorrent\<lparr>Finalizers := [TorrentFinalizer]\<rparr>)"
proof -
  let ?env = "storeUp downTransport" and ?w = "startWorld newTorrent"
  have h1: "GetErr ?env = None" by (simp add: storeUp_def)
  have h2: "stored ?w = Some newTorrent" by (simp add: startWorld_def)
  have h3: "IsZero (DeletionTimestamp newTorrent)" by (simp add: IsZero_def newTorrent_def)
  have h4: "\<not> ContainsFinalizer newTorrent TorrentFinalizer"
    by (simp add: ContainsFinalizer_def newTorrent_def)
  have f: "Finalizers newTorrent = []" by (simp add: newTorrent_def)
  have u: "UpdateErr ?env x = None" for x by (simp add: storeUp_def)
  have c: "calls ?w = []" by (simp add: startWorld_def)
  from finalizer_registration [OF h1 h2 h3 h4] f u c
  have "calls (world (Reconcile ?env ?w))
       = [CallUpdate (newTorrent\<lparr>Finalizers := [TorrentFinalizer]\<rparr>) None]
   \<and> result (Reconcile ?env ?w) = \<lparr>RequeueAfter = 1 * Second\<rparr>
   \<and> err (Reconcile ?env ?w) = None
   \<and> stored (world (Reconcile ?env ?w)) = Some (newTorrent\<lparr>Finalizers := [TorrentFinalizer]\<rparr>)"
    by simp
  with h1 h2 h3 h4 u show ?thesis by blast
qed

text \<open>
  The claim as it is written promises the requeue after 1 second on every such pass.
  When the store refuses the write, the pass returns the store's error and no delay.
\<close>

theorem finalizer_registration_counterexample:
  "IsZero (DeletionTimestamp newTorrent)
   \<and> \<not> ContainsFinalizer newTorrent TorrentFinalizer
   \<and> result (Reconcile (storeDown downTransport) (startWorld newTorrent))
       \<noteq> \<lparr>RequeueAfter = 1 * Second\<rparr>
   \<and> err (Reconcile (storeDown downTransport) (startWorld newTorrent))
       = Some (ErrExternal ''conflict'')"
  by (simp add: Reconcile_def Update_def IsZero_def ContainsFinalizer_def AddFinalizer_def
      newTorrent_def startWorld_def storeDown_def noRequeue_def Second_def)


subsection \<open>Exclusive conditions\<close>

lemma storedExclusive_calls [simp]:
  "storedExclusive (w\<lparr>calls := cs\<rparr>) = storedExclusive w"
  by (simp add: storedExclusive_def)

lemma setActive_exclusive:
  assumes "storedExclusive w"
  shows "exclusive (status_Conditions (Status (object (setActive env t w))))
       \<and> storedExclusive (world (setActive env t w))"
  unfolding setActive_def
  by (rule persistAndRequeue_exclusive [OF setAvailableCondition_exclusive assms])

lemma handleDeletion_exclusive:
  assumes "exclusive (status_Conditions (Status t))" and "storedExclusive w"
  shows "exclusive (status_Conditions (Status (object (handleDeletion env t w))))
       \<and> storedExclusive (world (handleDeletion env t w))"
proof (cases "status_Hash (Status t) = []")
  case True
  then show ?thesis
    using removeFinalizer_exclusive [OF assms] by (simp add: handleDeletion_no_hash)
next
  case False
  let ?w1 = "w\<lparr>calls := calls w @ [CallDeleteTorrent (status_Hash (Status t)) True]\<rparr>"
  have w1: "storedExclusive ?w1" using assms(2) by simp
  show ?thesis
  proof (cases "fst (DeleteTorrent (http env) (qbt w) (status_Hash (Status t)) True)")
    case None
    show ?thesis
      unfolding handleDeletion_deleted [OF False None]
      by (rule removeFinalizer_exclusive [OF assms(1) w1])
  next
    case (Some e)
    show ?thesis
      unfolding handleDeletion_failed [OF False Some]
      by (rule persistAndRequeue_exclusive [OF setDegradedCondition_exclusive w1])
  qed
qed

lemma reconcile_exclusive:
  assumes "exclusive (status_Conditions (Status t))" and "storedExclusive w"
  shows "exclusive (status_Conditions (Status (object (reconcile env t w))))
       \<and> storedExclusive (world (reconcile env t w))"
proof (cases "GetTorrentHash (spec_MagnetURI (Spec t))")
  case (Inl e)
  with assms show ?thesis by (simp add: reconcile_malformed)
next
  case (Inr hash)
  let ?w1 = "w\<lparr>calls := calls w @ [CallGetTorrentInfo hash]\<rparr>"
  let ?w2 = "w\<lparr>calls := calls w @ [CallGetTorrentInfo hash,
                                      CallAddTorrent (spec_MagnetURI (Spec t))]\<rparr>"
  have w1: "storedExclusive ?w1" and w2: "storedExclusive ?w2" using assms(2) by simp_all
  show ?thesis
  proof (cases "fst (GetTorrentInfo (http env) (qbt w) hash)")
    case (Inl e)
    show ?thesis
      unfolding reconcile_lookup_failed [OF Inr Inl]
      by (rule persistAndRequeue_exclusive [OF setDegradedCondition_exclusive w1])
  next
    case found: (Inr found)
    show ?thesis
    proof (cases found)
      case None
      note absent = found [unfolded None]
      show ?thesis
      proof (cases "fst (AddTorrent (http env) (qbt w) (spec_MagnetURI (Spec t)))")
        case None
        show ?thesis
          unfolding reconcile_added [OF Inr absent None]
          by (rule persistAndRequeue_exclusive [OF setAvailableCondition_exclusive w2])
      next
        case (Some e)
        show ?thesis
          unfolding reconcile_add_failed [OF Inr absent Some]
          by (rule persistAndRequeue_exclusive [OF setDegradedCondition_exclusive w2])
      qed
    next
      case (Some info)
      note present = found [unfolded Some]
      show ?thesis
      proof (cases "fieldsMatch t info")
        case True
        show ?thesis
          unfolding reconcile_unchanged [OF Inr present True]
          by (rule setActive_exclusive [OF w1])
      next
        case False
        let ?t1 = "snd (updateTorrentStatus t info)"
        have t1: "exclusive (status_Conditions (Status ?t1))"
          using assms(1) by (simp add: updateTorrentStatus_meta)
        obtain r t2 w2 where su: "StatusUpdate env FieldsChanged ?t1 ?w1 = (r, t2, w2)"
          by (cases "StatusUpdate env FieldsChanged ?t1 ?w1") auto
        from StatusUpdate_exclusive [OF t1 w1, of env FieldsChanged] su
        have t2: "exclusive (status_Conditions (Status t2))" and sw2: "storedExclusive w2"
          by simp_all
        show ?thesis
        proof (cases r)
          case None
          with su t2 sw2 setActive_exclusive [OF sw2, of env t2] show ?thesis
            by (simp add: reconcile_changed [OF Inr present False])
        next
          case (Some e)
          with su t2 sw2 show ?thesis
            by (simp add: reconcile_changed [OF Inr present False])
        qed
      qed
    qed
  qed
qed

lemma Reconcile_exclusive:
  assumes "storedExclusive w"
  shows "exclusive (status_Conditions (Status (object (Reconcile env w))))
       \<and> storedExclusive (world (Reconcile env w))"
proof (cases "GetErr env \<noteq> None \<or> stored w = None")
  case True
  from Reconcile_no_resource [OF True] assms show ?thesis
    by (simp add: emptyTorrent_def exclusive_def)
next
  case False
  then obtain t where get: "GetErr env = None" and st: "stored w = Some t" by auto
  from assms st have t: "exclusive (status_Conditions (Status t))"
    by (simp add: storedExclusive_def)
  show ?thesis
  proof (cases "IsZero (DeletionTimestamp t)")
    case False
    show ?thesis
      unfolding Reconcile_deleting [OF get st False]
      by (rule handleDeletion_exclusive [OF t assms])
  next
    case True
    show ?thesis
    proof (cases "ContainsFinalizer t TorrentFinalizer")
      case True
      show ?thesis
        unfolding Reconcile_syncing [OF get st \<open>IsZero (DeletionTimestamp t)\<close> True]
        by (rule reconcile_exclusive [OF t assms])
    next
      case False
      let ?t1 = "t\<lparr>Finalizers := Finalizers t @ [TorrentFinalizer]\<rparr>"
      have "exclusive (status_Conditions (Status ?t1))" using t by simp
      from Update_exclusive [OF this assms, of env] show ?thesis
        unfolding Reconcile_registering [OF get st True False]
        by (auto split: prod.splits option.splits)
    qed
  qed
qed

text \<open>
  Claim C2.  The two operations that set a condition remove the other one: after
  \<^verbatim>\<open>setDegradedCondition\<close> the list has no Available condition at all, and after
  \<^verbatim>\<open>setAvailableCondition\<close> no Degraded condition at all, whatever the list was.  And
  exclusivity is an invariant: it holds of a resource without conditions, as a new
  resource is; and if the conditions of the stored resource do not hold both Available
  with status True and Degraded with status True, then after any pass, whatever the
  remote service and the store answer, neither the conditions of the resource in memory
  nor those of the stored resource hold both.
\<close>

theorem conditions_exclusive:
  assumes "case stored w of None \<Rightarrow> True
           | Some s \<Rightarrow> exclusive (status_Conditions (Status s))"
  shows "exclusive (status_Conditions (Status (object (Reconcile env w))))
       \<and> (case stored (world (Reconcile env w)) of None \<Rightarrow> True
          | Some s \<Rightarrow> exclusive (status_Conditions (Status s)))
       \<and> (\<forall>c \<in> set (status_Conditions (Status (setDegradedCondition env t reason message))).
             cond_Type c \<noteq> TypeAvailableTorrent)
       \<and> (\<forall>c \<in> set (status_Conditions (Status (setAvailableCondition env t reason message))).
             cond_Type c \<noteq> TypeDegradedTorrent)
       \<and> exclusive []"
  using Reconcile_exclusive [of w env] assms
    setDegradedCondition_no_available [of env t reason message]
    setAvailableCondition_no_degraded [of env t reason message]
  by (simp add: storedExclusive_def exclusive_def)

theorem conditions_exclusive_witness:
  "exclusive (status_Conditions (Status degradedTorrent))
   \<and> status_Conditions (Status (object
        (Reconcile (storeUp (okTransport [exampleInfo ''abc'' ''ubuntu'' ''downloading'']))
           (startWorld degradedTorrent))))
       = [availableCondition\<lparr>cond_LastTransitionTime := 1700000200\<rparr>]
   \<and> exclusive (status_Conditions (Status (object
        (Reconcile (storeUp (okTransport [exampleInfo ''abc'' ''ubuntu'' ''downloading'']))
           (startWorld degradedTorrent)))))"
proof -
  let ?env = "storeUp (okTransport [exampleInfo ''abc'' ''ubuntu'' ''downloading''])"
  let ?w = "startWorld degradedTorrent"
  have before: "exclusive (status_Conditions (Status degradedTorrent))"
    by (simp add: exclusive_def degradedTorrent_def degradedCondition_def
        TypeAvailableTorrent_def)
  then have h: "case stored ?w of None \<Rightarrow> True
           | Some s \<Rightarrow> exclusive (status_Conditions (Status s))"
    by (simp add: startWorld_def)
  have hash: "GetTorrentHash ''magnet:?xt=urn:btih:abc&dn=ubuntu'' = Inr ''abc''"
    by (simp add: GetTorrentHash_def substring_def)
  have after: "status_Conditions (Status (object (Reconcile ?env ?w)))
       = [availableCondition\<lparr>cond_LastTransitionTime := 1700000200\<rparr>]"
    by (simp add: Reconcile_def reconcile_def hash setActive_def persistAndRequeue_def
        StatusUpdate_def setAvailableCondition_def setConditions_def
        RemoveStatusCondition_def updateTorrentStatus_eq fieldsMatch_def
        GetTorrentInfo_def GetTorrentsInfo_def sidCookie_def
        IsZero_def ContainsFinalizer_def StatusOK_def
        storeUp_def okTransport_def okResponse_def startWorld_def exampleInfo_def
        degradedTorrent_def syncedTorrent_def degradedCondition_def availableCondition_def
        TypeAvailableTorrent_def TypeDegradedTorrent_def ConditionTrue_def
        TorrentFinalizer_def loggedInClient_def Let_def)
  from conditions_exclusive [OF h, of ?env] before after show ?thesis by blast
qed


subsection \<open>Writes that the store refuses\<close>

lemma persistAndRequeue_handled:
  assumes "\<forall>c \<in> set (calls w). \<not> failedWrite c"
    and "site \<in> {DeleteFailed, GetInfoFailed, AddFailed} \<and> delay = 10 * Second
         \<or> site = Added \<and> delay = 5 * Second \<or> site = Active \<and> delay = 30 * Second"
  shows "writeFailuresHandled (calls (world (persistAndRequeue env site delay t w)))
           (persistAndRequeue env site delay t w)"
proof -
  obtain r where c: "calls (world (persistAndRequeue env site delay t w))
         = calls w @ [CallStatusUpdate site t r]"
    using persistAndRequeue_calls by blast
  have old: "CallUpdate t' (Some e) \<notin> set (calls w)"
            "CallStatusUpdate s t' (Some e) \<notin> set (calls w)" for t' e s
    using assms(1) by fastforce+
  show ?thesis
    unfolding writeFailuresHandled_def c
    using assms(2) old by (auto simp: persistAndRequeue_result)
qed

lemma removeFinalizer_handled:
  assumes "\<forall>c \<in> set (calls w). \<not> failedWrite c"
  shows "writeFailuresHandled (calls (world (removeFinalizer env t w))) (removeFinalizer env t w)"
proof -
  have old: "CallUpdate t' (Some e) \<notin> set (calls w)"
            "CallStatusUpdate s t' (Some e) \<notin> set (calls w)" for t' e s
    using assms(1) by fastforce+
  show ?thesis
    unfolding writeFailuresHandled_def removeFinalizer_calls
    using old by (auto simp: removeFinalizer_result)
qed

lemma handleDeletion_handled:
  assumes "\<forall>c \<in> set (calls w). \<not> failedWrite c"
  shows "writeFailuresHandled (calls (world (handleDeletion env t w))) (handleDeletion env t w)"
proof (cases "status_Hash (Status t) = []")
  case True
  then show ?thesis
    using removeFinalizer_handled [OF assms] by (simp add: handleDeletion_no_hash)
next
  case False
  let ?w1 = "w\<lparr>calls := calls w @ [CallDeleteTorrent (status_Hash (Status t)) True]\<rparr>"
  have w1: "\<forall>c \<in> set (calls ?w1). \<not> failedWrite c" using assms by simp
  show ?thesis
  proof (cases "fst (DeleteTorrent (http env) (qbt w) (status_Hash (Status t)) True)")
    case None
    show ?thesis
      unfolding handleDeletion_deleted [OF False None]
      by (rule removeFinalizer_handled [OF w1])
  next
    case (Some e)
    show ?thesis
      unfolding handleDeletion_failed [OF False Some]
      by (rule persistAndRequeue_handled [OF w1]) simp
  qed
qed

lemma setActive_handled:
  assumes "\<forall>c \<in> set (calls w). \<not> failedWrite c"
  shows "writeFailuresHandled (calls (world (setActive env t w))) (setActive env t w)"
  unfolding setActive_def by (rule persistAndRequeue_handled [OF assms]) simp

lemma reconcile_handled:
  assumes "\<forall>c \<in> set (calls w). \<not> failedWrite c"
  shows "writeFailuresHandled (calls (world (reconcile env t w))) (reconcile env t w)"
proof (cases "GetTorrentHash (spec_MagnetURI (Spec t))")
  case (Inl e)
  have old: "CallUpdate t' (Some x) \<notin> set (calls w)"
            "CallStatusUpdate s t' (Some x) \<notin> set (calls w)" for t' x s
    using assms(1) by fastforce+
  then show ?thesis
    by (simp add: reconcile_malformed [OF Inl] writeFailuresHandled_def)
next
  case (Inr hash)
  let ?w1 = "w\<lparr>calls := calls w @ [CallGetTorrentInfo hash]\<rparr>"
  let ?w2 = "w\<lparr>calls := calls w @ [CallGetTorrentInfo hash,
                                      CallAddTorrent (spec_MagnetURI (Spec t))]\<rparr>"
  have w1: "\<forall>c \<in> set (calls ?w1). \<not> failedWrite c"
    and w2: "\<forall>c \<in> set (calls ?w2). \<not> failedWrite c" using assms by simp_all
  show ?thesis
  proof (cases "fst (GetTorrentInfo (http env) (qbt w) hash)")
    case (Inl e)
    show ?thesis
      unfolding reconcile_lookup_failed [OF Inr Inl]
      by (rule persistAndRequeue_handled [OF w1]) simp
  next
    case found: (Inr found)
    show ?thesis
    proof (cases found)
      case None
      note absent = found [unfolded None]
      show ?thesis
      proof (cases "fst (AddTorrent (http env) (qbt w) (spec_MagnetURI (Spec t)))")
        case None
        show ?thesis
          unfolding reconcile_added [OF Inr absent None]
          by (rule persistAndRequeue_handled [OF w2]) simp
      next
        case (Some e)
        show ?thesis
          unfolding reconcile_add_failed [OF Inr absent Some]
          by (rule persistAndRequeue_handled [OF w2]) simp
      qed
    next
      case (Some info)
      note present = found [unfolded Some]
      show ?thesis
      proof (cases "fieldsMatch t info")
        case True
        show ?thesis
          unfolding reconcile_unchanged [OF Inr present True]
          by (rule setActive_handled [OF w1])
      next
        case False
        let ?t1 = "snd (updateTorrentStatus t info)"
        obtain r t2 w2 where su: "StatusUpdate env FieldsChanged ?t1 ?w1 = (r, t2, w2)"
          by (cases "StatusUpdate env FieldsChanged ?t1 ?w1") auto
        from StatusUpdate_calls [of env FieldsChanged ?t1 ?w1] su
        have c2: "calls w2 = calls w @ [CallGetTorrentInfo hash, CallStatusUpdate FieldsChanged ?t1 r]"
          by simp
        have old: "CallUpdate t' (Some x) \<notin> set (calls w)"
            "CallStatusUpdate s t' (Some x) \<notin> set (calls w)" for t' x s
          using assms(1) by fastforce+
        show ?thesis
        proof (cases r)
          case None
          with c2 assms have "\<forall>c \<in> set (calls w2). \<not> failedWrite c" by simp
          from setActive_handled [OF this, of env t2] su None show ?thesis
            by (simp add: reconcile_changed [OF Inr present False])
        next
          case (Some e)
          with su c2 old show ?thesis
            by (auto simp: reconcile_changed [OF Inr present False] writeFailuresHandled_def)
        qed
      qed
    qed
  qed
qed

lemma Reconcile_handled:
  assumes "\<forall>c \<in> set (calls w). \<not> failedWrite c"
  shows "writeFailuresHandled (calls (world (Reconcile env w))) (Reconcile env w)"
proof (cases "GetErr env \<noteq> None \<or> stored w = None")
  case True
  have old: "CallUpdate t' (Some x) \<notin> set (calls w)"
            "CallStatusUpdate s t' (Some x) \<notin> set (calls w)" for t' x s
    using assms(1) by fastforce+
  then show ?thesis
    by (simp add: Reconcile_no_resource [OF True] writeFailuresHandled_def)
next
  case False
  then obtain t where get: "GetErr env = None" and st: "stored w = Some t" by auto
  show ?thesis
  proof (cases "IsZero (DeletionTimestamp t)")
    case False
    show ?thesis
      unfolding Reconcile_deleting [OF get st False]
      by (rule handleDeletion_handled [OF assms])
  next
    case True
    show ?thesis
    proof (cases "ContainsFinalizer t TorrentFinalizer")
      case True
      show ?thesis
        unfolding Reconcile_syncing [OF get st \<open>IsZero (DeletionTimestamp t)\<close> True]
        by (rule reconcile_handled [OF assms])
    next
      case False
      let ?t1 = "t\<lparr>Finalizers := Finalizers t @ [TorrentFinalizer]\<rparr>"
      have old: "CallUpdate t' (Some x) \<notin> set (calls w)"
            "CallStatusUpdate s t' (Some x) \<notin> set (calls w)" for t' x s
        using assms(1) by fastforce+
      obtain r t2 w2 where u: "Update env ?t1 w = (r, t2, w2)"
        by (cases "Update env ?t1 w") auto
      from Update_calls [of env ?t1 w] u have "calls w2 = calls w @ [CallUpdate ?t1 r]"
        by simp
      with u old show ?thesis
        unfolding Reconcile_registering [OF get st True False]
        by (cases r) (auto simp: writeFailuresHandled_def)
    qed
  qed
qed

text \<open>
  Claim C4, as the code has it.  In a pass, with the trace of its calls: a write of the
  resource (\<^verbatim>\<open>r.Update\<close>, to add or to remove the finalizer) that the store refuses is
  returned as the pass's error, with no requeue delay; so is a refused status write of
  observed fields that the diff changed.  A refused status write that follows the setting
  of a condition is only logged: the pass returns no error and the delay of its path, 10
  seconds after a Degraded condition, 5 seconds after \<open>TorrentAdded\<close>, 30 seconds after
  \<open>TorrentActive\<close>.
\<close>

theorem store_write_failures:
  assumes "calls w = []"
  shows "(\<forall>t e. CallUpdate t (Some e) \<in> set (calls (world (Reconcile env w))) \<longrightarrow>
            err (Reconcile env w) = Some e \<and> result (Reconcile env w) = noRequeue)
       \<and> (\<forall>t e. CallStatusUpdate FieldsChanged t (Some e)
                  \<in> set (calls (world (Reconcile env w))) \<longrightarrow>
            err (Reconcile env w) = Some e \<and> result (Reconcile env w) = noRequeue)
       \<and> (\<forall>site t e. CallStatusUpdate site t (Some e)
                  \<in> set (calls (world (Reconcile env w))) \<longrightarrow>
            site \<in> {DeleteFailed, GetInfoFailed, AddFailed} \<longrightarrow>
            err (Reconcile env w) = None
            \<and> result (Reconcile env w) = \<lparr>RequeueAfter = 10 * Second\<rparr>)
       \<and> (\<forall>t e. CallStatusUpdate Added t (Some e)
                  \<in> set (calls (world (Reconcile env w))) \<longrightarrow>
            err (Reconcile env w) = None
            \<and> result (Reconcile env w) = \<lparr>RequeueAfter = 5 * Second\<rparr>)
       \<and> (\<forall>t e. CallStatusUpdate Active t (Some e)
                  \<in> set (calls (world (Reconcile env w))) \<longrightarrow>
            err (Reconcile env w) = None
            \<and> result (Reconcile env w) = \<lparr>RequeueAfter = 30 * Second\<rparr>)"
proof -
  have "\<forall>c \<in> set (calls w). \<not> failedWrite c" using assms by simp
  from Reconcile_handled [OF this, of env] show ?thesis
    unfolding writeFailuresHandled_def .
qed


text \<open>Unfolding a pass on a concrete input.\<close>

lemmas pass_defs =
  Reconcile_def handleDeletion_def reconcile_def removeFinalizer_def persistAndRequeue_def
  setActive_def Update_def afterUpdate_def StatusUpdate_def setDegradedCondition_def setAvailableCondition_def
  setConditions_def updateTorrentStatus_eq fieldsMatch_def RemoveStatusCondition_def
  updateExisting_def IsZero_def ContainsFinalizer_def AddFinalizer_def RemoveFinalizer_def
  DeleteTorrent_def GetTorrentInfo_def GetTorrentsInfo_def AddTorrent_def sidCookie_def
  formatBool_def StatusOK_def StatusUnauthorized_def noRequeue_def
  TypeAvailableTorrent_def TypeDegradedTorrent_def ConditionTrue_def TorrentFinalizer_def
  Let_def

lemmas example_defs =
  storeUp_def storeDown_def okTransport_def okResponse_def downTransport_def startWorld_def
  exampleInfo_def newTorrent_def syncedTorrent_def deletingTorrent_def degradedTorrent_def
  availableCondition_def degradedCondition_def loggedInClient_def

lemma example_hash: "GetTorrentHash ''magnet:?xt=urn:btih:abc&dn=ubuntu'' = Inr ''abc''"
  by (simp add: GetTorrentHash_def substring_def)

theorem store_write_failures_witness:
  "calls (startWorld syncedTorrent) = []
   \<and> CallStatusUpdate FieldsChanged
        (snd (updateTorrentStatus syncedTorrent (exampleInfo ''abc'' ''ubuntu'' ''uploading'')))
        (Some (ErrExternal ''conflict''))
       \<in> set (calls (world (Reconcile
             (storeDown (okTransport [exampleInfo ''abc'' ''ubuntu'' ''uploading'']))
             (startWorld syncedTorrent))))
   \<and> err (Reconcile (storeDown (okTransport [exampleInfo ''abc'' ''ubuntu'' ''uploading'']))
             (startWorld syncedTorrent)) = Some (ErrExternal ''conflict'')
   \<and> result (Reconcile (storeDown (okTransport [exampleInfo ''abc'' ''ubuntu'' ''uploading'']))
             (startWorld syncedTorrent)) = noRequeue
   \<and> CallStatusUpdate Active
        (setAvailableCondition
           (storeDown (okTransport [exampleInfo ''abc'' ''ubuntu'' ''downloading'']))
           syncedTorrent ''TorrentActive'' ''Torrent is active on qBittorrent'')
        (Some (ErrExternal ''conflict''))
       \<in> set (calls (world (Reconcile
             (storeDown (okTransport [exampleInfo ''abc'' ''ubuntu'' ''downloading'']))
             (startWorld syncedTorrent))))
   \<and> err (Reconcile (storeDown (okTransport [exampleInfo ''abc'' ''ubuntu'' ''downloading'']))
             (startWorld syncedTorrent)) = None
   \<and> result (Reconcile (storeDown (okTransport [exampleInfo ''abc'' ''ubuntu'' ''downloading'']))
             (startWorld syncedTorrent)) = \<lparr>RequeueAfter = 30 * Second\<rparr>"
proof -
  let ?up = "storeDown (okTransport [exampleInfo ''abc'' ''ubuntu'' ''uploading''])"
  let ?same = "storeDown (okTransport [exampleInfo ''abc'' ''ubuntu'' ''downloading''])"
  let ?w = "startWorld syncedTorrent"
  have h: "calls ?w = []" by (simp add: startWorld_def)
  have m1: "CallStatusUpdate FieldsChanged
        (snd (updateTorrentStatus syncedTorrent (exampleInfo ''abc'' ''ubuntu'' ''uploading'')))
        (Some (ErrExternal ''conflict'')) \<in> set (calls (world (Reconcile ?up ?w)))"
    by (simp add: pass_defs example_defs example_hash)
  have m2: "CallStatusUpdate Active
        (setAvailableCondition ?same syncedTorrent ''TorrentActive''
           ''Torrent is active on qBittorrent'')
        (Some (ErrExternal ''conflict'')) \<in> set (calls (world (Reconcile ?same ?w)))"
    by (simp add: pass_defs example_defs example_hash)
  from store_write_failures [OF h, of ?up] m1
  have r1: "err (Reconcile ?up ?w) = Some (ErrExternal ''conflict'')
          \<and> result (Reconcile ?up ?w) = noRequeue"
    by blast
  from store_write_failures [OF h, of ?same] m2
  have r2: "err (Reconcile ?same ?w) = None
          \<and> result (Reconcile ?same ?w) = \<lparr>RequeueAfter = 30 * Second\<rparr>"
    by blast
  from h m1 r1 m2 r2 show ?thesis by blast
qed

text \<open>
  The claim as it is written has every refused status write returned as an error.  On a
  resource marked for deletion, with the remote service and the store both down, the
  status write that follows the Degraded condition is refused, and the pass returns no
  error and a requeue after 10 seconds.
\<close>

theorem store_write_failures_counterexample:
  "CallStatusUpdate DeleteFailed
      (setDegradedCondition (storeDown downTransport) deletingTorrent
         ''FailedToDeleteTorrent'' ''failed to delete torrent: connection refused'')
      (Some (ErrExternal ''conflict''))
     \<in> set (calls (world (Reconcile (storeDown downTransport) (startWorld deletingTorrent))))
   \<and> err (Reconcile (storeDown downTransport) (startWorld deletingTorrent)) = None
   \<and> result (Reconcile (storeDown downTransport) (startWorld deletingTorrent))
       = \<lparr>RequeueAfter = 10 * Second\<rparr>"
  by (simp add: pass_defs example_defs)


subsection \<open>A second pass\<close>

lemma setAvailableCondition_Status:
  "t\<lparr>Status := Status (setAvailableCondition env t reason message)\<rparr>
     = setAvailableCondition env t reason message"
  by (simp add: setAvailableCondition_def setConditions_def Let_def)

lemma updateTorrentStatus_Status:
  "t\<lparr>Status := Status (snd (updateTorrentStatus t info))\<rparr> = snd (updateTorrentStatus t info)"
  by (simp add: updateTorrentStatus_eq)

text \<open>On conditions that show a completed sync, the end of a sync sets nothing.\<close>

lemma showsActive_settled:
  assumes "showsActive (status_Conditions (Status t))"
  shows "setAvailableCondition env t ''TorrentActive'' ''Torrent is active on qBittorrent'' = t"
proof -
  let ?cs = "status_Conditions (Status t)"
  let ?new = "\<lparr>cond_Type = TypeAvailableTorrent, cond_Status = ConditionTrue,
               cond_ObservedGeneration = 0, cond_LastTransitionTime = Now env,
               cond_Reason = ''TorrentActive'',
               cond_Message = ''Torrent is active on qBittorrent''\<rparr>"
  from assms obtain c where "FindStatusCondition ?cs (cond_Type ?new) = Some c"
    and "cond_Status c = cond_Status ?new" and "cond_Reason c = cond_Reason ?new"
    and "cond_Message c = cond_Message ?new"
    and "cond_ObservedGeneration c = cond_ObservedGeneration ?new"
    by (auto simp: showsActive_def split: option.splits)
  then have set: "SetStatusCondition (Now env) ?cs ?new = ?cs"
    by (rule SetStatusCondition_noop)
  from assms have rem: "RemoveStatusCondition ?cs TypeDegradedTorrent = ?cs"
    by (simp add: showsActive_def RemoveStatusCondition_def)
  have "setAvailableCondition env t ''TorrentActive'' ''Torrent is active on qBittorrent''
          = setConditions t ?cs"
    unfolding setAvailableCondition_def Let_def set rem ..
  then show ?thesis by (simp add: setConditions_same)
qed

lemma persistAndRequeue_qbt: "qbt (world (persistAndRequeue env site delay t w)) = qbt w"
  by (auto simp: persistAndRequeue_def StatusUpdate_def Let_def split: option.splits)

text \<open>The end of a sync whose status write the store takes.\<close>

lemma setActive_stored:
  assumes "stored w = Some t"
    and "StatusUpdateErr env Active
           (setAvailableCondition env t ''TorrentActive'' ''Torrent is active on qBittorrent'')
         = None"
  shows "stored (world (setActive env t w))
           = Some (setAvailableCondition env t ''TorrentActive''
                     ''Torrent is active on qBittorrent'')
       \<and> qbt (world (setActive env t w)) = qbt w"
  unfolding setActive_def persistAndRequeue_ok [OF assms(2) assms(1)]
  by (simp add: setAvailableCondition_Status)

text \<open>The end of a sync on a resource that already shows the condition it sets.\<close>

lemma setActive_settled:
  assumes "stored w = Some s"
    and "setAvailableCondition env s ''TorrentActive'' ''Torrent is active on qBittorrent'' = s"
  shows "object (setActive env s w) = s \<and> stored (world (setActive env s w)) = Some s
       \<and> qbt (world (setActive env s w)) = qbt w"
proof (cases "StatusUpdateErr env Active s")
  case None
  from persistAndRequeue_ok [OF None assms(1), of "30 * Second"] show ?thesis
    by (simp add: setActive_def assms(2))
next
  case (Some e)
  from persistAndRequeue_failed [OF Some, of "30 * Second" w] assms(1) show ?thesis
    by (simp add: setActive_def assms(2))
qed

lemma first_pass_stored:
  assumes "stored w = Some t"
    and "GetTorrentHash (spec_MagnetURI (Spec t)) = Inr hash"
    and "fst (GetTorrentInfo (http env) (qbt w) hash) = Inr (Some info)"
    and "\<forall>site x. StatusUpdateErr env site x = None"
  shows "stored (world (reconcile env t w))
           = Some (setAvailableCondition env (snd (updateTorrentStatus t info))
                     ''TorrentActive'' ''Torrent is active on qBittorrent'')
       \<and> qbt (world (reconcile env t w)) = qbt w"
proof (cases "fieldsMatch t info")
  case True
  let ?w1 = "w\<lparr>calls := calls w @ [CallGetTorrentInfo hash]\<rparr>"
  have st: "stored ?w1 = Some t" using assms(1) by simp
  from setActive_stored [OF st] assms(4) show ?thesis
    by (simp add: reconcile_unchanged [OF assms(2,3) True] updateTorrentStatus_match [OF True])
next
  case False
  let ?w1 = "w\<lparr>calls := calls w @ [CallGetTorrentInfo hash]\<rparr>"
  let ?t1 = "snd (updateTorrentStatus t info)"
  let ?w2 = "?w1\<lparr>stored := Some ?t1,
                  calls := calls ?w1 @ [CallStatusUpdate FieldsChanged ?t1 None]\<rparr>"
  have st: "stored ?w1 = Some t" using assms(1) by simp
  have ok: "StatusUpdateErr env FieldsChanged ?t1 = None" using assms(4) by simp
  have su: "StatusUpdate env FieldsChanged ?t1 ?w1 = (None, ?t1, ?w2)"
    using StatusUpdate_ok [OF ok st] by (simp add: updateTorrentStatus_Status)
  have st2: "stored ?w2 = Some ?t1" by simp
  from setActive_stored [OF st2] assms(4)
  have "stored (world (setActive env ?t1 ?w2))
           = Some (setAvailableCondition env ?t1 ''TorrentActive''
                     ''Torrent is active on qBittorrent'')
       \<and> qbt (world (setActive env ?t1 ?w2)) = qbt w"
    by simp
  then show ?thesis
    by (simp add: reconcile_changed [OF assms(2,3) False] su)
qed

text \<open>
  A sync pass on a resource that the store holds, that matches the remote record and on
  which the end of a sync sets nothing: the resource is the same after the pass, in
  memory and in the store, whatever the store answers.
\<close>

lemma settled_pass:
  assumes "GetErr env = None" and "stored w = Some s" and "IsZero (DeletionTimestamp s)"
    and "ContainsFinalizer s TorrentFinalizer"
    and "GetTorrentHash (spec_MagnetURI (Spec s)) = Inr hash"
    and "fst (GetTorrentInfo (http env) (qbt w) hash) = Inr (Some info)"
    and "fieldsMatch s info"
    and "setAvailableCondition env s ''TorrentActive'' ''Torrent is active on qBittorrent'' = s"
  shows "object (Reconcile env w) = s \<and> stored (world (Reconcile env w)) = Some s
       \<and> qbt (world (Reconcile env w)) = qbt w"
proof -
  let ?w1 = "w\<lparr>calls := calls w @ [CallGetTorrentInfo hash]\<rparr>"
  have pass: "Reconcile env w = setActive env s ?w1"
    using Reconcile_syncing [OF assms(1-4)] reconcile_unchanged [OF assms(5-7)] by simp
  have st: "stored ?w1 = Some s" using assms(2) by simp
  from setActive_settled [OF st assms(8)] pass show ?thesis by simp
qed

text \<open>
  Claim C6, as the code has it.  Take a resource with the finalizer and no deletion marker,
  whose magnet URI yields a hash, and a remote service that answers the lookup of that
  hash with the same record in two passes in a row.  Suppose that the store takes the
  status writes of the first pass, or that the resource was settled before the first
  pass: it matched the record in every observed field and its conditions showed a
  completed sync (Available with status True and the reason and message of
  \<open>TorrentActive\<close>, no Degraded condition).  Then the resource that the first pass leaves
  in the store matches the record in every observed field; on it the field-by-field diff
  changes nothing and reports no change; and after the second pass the resource in memory
  and the resource in the store are that same resource: no field of the status and no
  condition has changed, whatever the clock and the store do in the second pass.  (The
  client is the same in both passes, since no pass writes to it.)
\<close>

theorem second_pass_changes_nothing:
  assumes "GetErr env1 = None" and "GetErr env2 = None"
    and "stored w = Some t" and "IsZero (DeletionTimestamp t)"
    and "ContainsFinalizer t TorrentFinalizer"
    and "GetTorrentHash (spec_MagnetURI (Spec t)) = Inr hash"
    and "fst (GetTorrentInfo (http env1) (qbt w) hash) = Inr (Some info)"
    and "fst (GetTorrentInfo (http env2) (qbt w) hash) = Inr (Some info)"
    and "(\<forall>site x. StatusUpdateErr env1 site x = None)
         \<or> fieldsMatch t info \<and> showsActive (status_Conditions (Status t))"
  shows "\<exists>s1. stored (world (Reconcile env1 w)) = Some s1
            \<and> fieldsMatch s1 info
            \<and> updateTorrentStatus s1 info = (False, s1)
            \<and> object (Reconcile env2 (world (Reconcile env1 w))) = s1
            \<and> stored (world (Reconcile env2 (world (Reconcile env1 w)))) = Some s1"
proof -
  let ?R = "''TorrentActive''" and ?M = "''Torrent is active on qBittorrent''"
  let ?w' = "world (Reconcile env1 w)"
  have first: "\<exists>s1. stored ?w' = Some s1 \<and> qbt ?w' = qbt w \<and> fieldsMatch s1 info
      \<and> setAvailableCondition env2 s1 ?R ?M = s1
      \<and> DeletionTimestamp s1 = DeletionTimestamp t \<and> Finalizers s1 = Finalizers t
      \<and> Spec s1 = Spec t"
  proof (cases "\<forall>site x. StatusUpdateErr env1 site x = None")
    case True
    let ?s1 = "setAvailableCondition env1 (snd (updateTorrentStatus t info)) ?R ?M"
    have pass1: "Reconcile env1 w = reconcile env1 t w"
      by (rule Reconcile_syncing [OF assms(1,3,4,5)])
    from first_pass_stored [OF assms(3,6,7) True] pass1
    have "stored ?w' = Some ?s1" and "qbt ?w' = qbt w" by simp_all
    moreover have "fieldsMatch ?s1 info"
      by (simp add: setAvailableCondition_meta fieldsMatch_updated)
    moreover have "setAvailableCondition env2 ?s1 ?R ?M = ?s1"
      by (rule setAvailableCondition_idem)
    moreover have "DeletionTimestamp ?s1 = DeletionTimestamp t"
      "Finalizers ?s1 = Finalizers t" "Spec ?s1 = Spec t"
      by (simp_all add: setAvailableCondition_meta updateTorrentStatus_meta)
    ultimately show ?thesis by blast
  next
    case False
    with assms(9) have m: "fieldsMatch t info"
      and a: "showsActive (status_Conditions (Status t))" by auto
    from settled_pass [OF assms(1,3,4,5,6,7) m showsActive_settled [OF a]]
    have "stored ?w' = Some t" and "qbt ?w' = qbt w" by simp_all
    with m showsActive_settled [OF a, of env2] show ?thesis by blast
  qed
  then obtain s1 where st: "stored ?w' = Some s1" and q: "qbt ?w' = qbt w"
    and m: "fieldsMatch s1 info" and idem: "setAvailableCondition env2 s1 ?R ?M = s1"
    and meta: "DeletionTimestamp s1 = DeletionTimestamp t" "Finalizers s1 = Finalizers t"
      "Spec s1 = Spec t"
    by blast
  have del: "IsZero (DeletionTimestamp s1)" using assms(4) meta by simp
  have fin: "ContainsFinalizer s1 TorrentFinalizer"
    using assms(5) meta by (simp add: ContainsFinalizer_def)
  have hash: "GetTorrentHash (spec_MagnetURI (Spec s1)) = Inr hash"
    using assms(6) meta by simp
  have look: "fst (GetTorrentInfo (http env2) (qbt ?w') hash) = Inr (Some info)"
    using assms(8) q by simp
  from settled_pass [OF assms(2) st del fin hash look m idem]
  have "object (Reconcile env2 ?w') = s1 \<and> stored (world (Reconcile env2 ?w')) = Some s1"
    by simp
  with st m updateTorrentStatus_match [OF m] show ?thesis by blast
qed

theorem second_pass_changes_nothing_witness:
  "GetErr (storeUp (okTransport [exampleInfo ''abc'' ''ubuntu'' ''uploading''])) = None
   \<and> stored (startWorld syncedTorrent) = Some syncedTorrent
   \<and> IsZero (DeletionTimestamp syncedTorrent)
   \<and> ContainsFinalizer syncedTorrent TorrentFinalizer
   \<and> GetTorrentHash (spec_MagnetURI (Spec syncedTorrent)) = Inr ''abc''
   \<and> fst (GetTorrentInfo (http (storeUp (okTransport [exampleInfo ''abc'' ''ubuntu'' ''uploading''])))
            (qbt (startWorld syncedTorrent)) ''abc'')
       = Inr (Some (exampleInfo ''abc'' ''ubuntu'' ''uploading''))
   \<and> (\<forall>site x. StatusUpdateErr (storeUp (okTransport [exampleInfo ''abc'' ''ubuntu'' ''uploading'']))
                  site x = None)
   \<and> stored (world (Reconcile (storeUp (okTransport [exampleInfo ''abc'' ''ubuntu'' ''uploading'']))
                       (startWorld syncedTorrent)))
       = Some (syncedTorrent\<lparr>Status := (Status syncedTorrent)\<lparr>status_State := ''uploading''\<rparr>\<rparr>)
   \<and> stored (world (Reconcile (storeUp (okTransport [exampleInfo ''abc'' ''ubuntu'' ''uploading'']))
                (world (Reconcile (storeUp (okTransport [exampleInfo ''abc'' ''ubuntu'' ''uploading'']))
                         (startWorld syncedTorrent)))))
       = Some (syncedTorrent\<lparr>Status := (Status syncedTorrent)\<lparr>status_State := ''uploading''\<rparr>\<rparr>)
   \<and> GetErr (storeDown (okTransport [exampleInfo ''abc'' ''ubuntu'' ''downloading''])) = None
   \<and> fst (GetTorrentInfo
            (http (storeDown (okTransport [exampleInfo ''abc'' ''ubuntu'' ''downloading''])))
            (qbt (startWorld syncedTorrent)) ''abc'')
       = Inr (Some (exampleInfo ''abc'' ''ubuntu'' ''downloading''))
   \<and> fieldsMatch syncedTorrent (exampleInfo ''abc'' ''ubuntu'' ''downloading'')
   \<and> showsActive (status_Conditions (Status syncedTorrent))
   \<and> stored (world (Reconcile (storeDown (okTransport [exampleInfo ''abc'' ''ubuntu'' ''downloading'']))
                       (startWorld syncedTorrent)))
       = Some syncedTorrent
   \<and> stored (world (Reconcile (storeDown (okTransport [exampleInfo ''abc'' ''ubuntu'' ''downloading'']))
                (world (Reconcile (storeDown (okTransport [exampleInfo ''abc'' ''ubuntu'' ''downloading'']))
                         (startWorld syncedTorrent)))))
       = Some syncedTorrent"
proof -
  let ?info = "exampleInfo ''abc'' ''ubuntu'' ''uploading''"
  let ?same = "exampleInfo ''abc'' ''ubuntu'' ''downloading''"
  let ?env = "storeUp (okTransport [?info])"
  let ?down = "storeDown (okTransport [?same])"
  let ?w = "startWorld syncedTorrent"
  let ?s = "syncedTorrent\<lparr>Status := (Status syncedTorrent)\<lparr>status_State := ''uploading''\<rparr>\<rparr>"
  have h1: "GetErr ?env = None" by (simp add: storeUp_def)
  have h3: "stored ?w = Some syncedTorrent" by (simp add: startWorld_def)
  have h4: "IsZero (DeletionTimestamp syncedTorrent)"
    by (simp add: IsZero_def syncedTorrent_def)
  have h5: "ContainsFinalizer syncedTorrent TorrentFinalizer"
    by (simp add: ContainsFinalizer_def syncedTorrent_def)
  have h6: "GetTorrentHash (spec_MagnetURI (Spec syncedTorrent)) = Inr ''abc''"
    by (simp add: syncedTorrent_def example_hash)
  have h7: "fst (GetTorrentInfo (http ?env) (qbt ?w) ''abc'') = Inr (Some ?info)"
    by (simp add: GetTorrentInfo_def GetTorrentsInfo_def StatusOK_def storeUp_def
        okTransport_def okResponse_def exampleInfo_def)
  have h9: "\<forall>site x. StatusUpdateErr ?env site x = None" by (simp add: storeUp_def)
  have first: "stored (world (Reconcile ?env ?w)) = Some ?s"
    by (simp add: pass_defs example_defs example_hash)
  from second_pass_changes_nothing [OF h1 h1 h3 h4 h5 h6 h7 h7] h9 first
  have a: "stored (world (Reconcile ?env (world (Reconcile ?env ?w)))) = Some ?s"
    by auto
  have d1: "GetErr ?down = None" by (simp add: storeDown_def)
  have d7: "fst (GetTorrentInfo (http ?down) (qbt ?w) ''abc'') = Inr (Some ?same)"
    by (simp add: GetTorrentInfo_def GetTorrentsInfo_def StatusOK_def storeDown_def
        okTransport_def okResponse_def exampleInfo_def)
  have m: "fieldsMatch syncedTorrent ?same"
    by (simp add: fieldsMatch_def syncedTorrent_def exampleInfo_def)
  have sa: "showsActive (status_Conditions (Status syncedTorrent))"
    by (simp add: showsActive_def FindStatusCondition_def syncedTorrent_def
        availableCondition_def TypeAvailableTorrent_def TypeDegradedTorrent_def
        ConditionTrue_def)
  from second_pass_changes_nothing [OF d1 d1 h3 h4 h5 h6 d7 d7] m sa
  obtain s1 where s1: "stored (world (Reconcile ?down ?w)) = Some s1"
    and s2: "stored (world (Reconcile ?down (world (Reconcile ?down ?w)))) = Some s1"
    by blast
  have "stored (world (Reconcile ?down ?w)) = Some syncedTorrent"
    by (simp add: pass_defs example_defs example_hash)
  with s1 s2 have b: "stored (world (Reconcile ?down ?w)) = Some syncedTorrent"
    "stored (world (Reconcile ?down (world (Reconcile ?down ?w)))) = Some syncedTorrent"
    by simp_all
  from h1 h3 h4 h5 h6 h7 h9 first a d1 d7 m sa b show ?thesis by blast
qed

text \<open>
  The claim as it is written asks only that the resource have the finalizer and no
  deletion marker and match the remote record.  The resource below does, and shows a
  Degraded condition from an earlier failure.  The store refuses the status write of the
  first pass, so the store holds the resource as it was; the diff of the second pass is a
  no-op, and yet the second pass replaces the Degraded condition by the Available one, in
  memory and, its write taken, in the store.
\<close>

theorem second_pass_counterexample:
  "ContainsFinalizer degradedTorrent TorrentFinalizer
   \<and> IsZero (DeletionTimestamp degradedTorrent)
   \<and> fieldsMatch degradedTorrent (exampleInfo ''abc'' ''ubuntu'' ''downloading'')
   \<and> stored (world (Reconcile (storeDown (okTransport [exampleInfo ''abc'' ''ubuntu'' ''downloading'']))
                       (startWorld degradedTorrent)))
       = Some degradedTorrent
   \<and> updateTorrentStatus degradedTorrent (exampleInfo ''abc'' ''ubuntu'' ''downloading'')
       = (False, degradedTorrent)
   \<and> status_Conditions (Status degradedTorrent) = [degradedCondition]
   \<and> status_Conditions (Status (object
        (Reconcile (storeUp (okTransport [exampleInfo ''abc'' ''ubuntu'' ''downloading'']))
           (world (Reconcile (storeDown (okTransport [exampleInfo ''abc'' ''ubuntu'' ''downloading'']))
                    (startWorld degradedTorrent))))))
       = [availableCondition\<lparr>cond_LastTransitionTime := 1700000200\<rparr>]
   \<and> stored (world
        (Reconcile (storeUp (okTransport [exampleInfo ''abc'' ''ubuntu'' ''downloading'']))
           (world (Reconcile (storeDown (okTransport [exampleInfo ''abc'' ''ubuntu'' ''downloading'']))
                    (startWorld degradedTorrent)))))
       \<noteq> Some degradedTorrent"
proof -
  let ?info = "exampleInfo ''abc'' ''ubuntu'' ''downloading''"
  let ?down = "storeDown (okTransport [?info])"
  let ?up = "storeUp (okTransport [?info])"
  let ?w = "startWorld degradedTorrent"
  have fin: "ContainsFinalizer degradedTorrent TorrentFinalizer"
    by (simp add: ContainsFinalizer_def degradedTorrent_def syncedTorrent_def)
  have del: "IsZero (DeletionTimestamp degradedTorrent)"
    by (simp add: IsZero_def degradedTorrent_def syncedTorrent_def)
  have m: "fieldsMatch degradedTorrent ?info"
    by (simp add: fieldsMatch_def degradedTorrent_def syncedTorrent_def exampleInfo_def)
  have cs: "status_Conditions (Status degradedTorrent) = [degradedCondition]"
    by (simp add: degradedTorrent_def)
  have w1: "world (Reconcile ?down ?w)
      = ?w\<lparr>calls := [CallGetTorrentInfo ''abc'',
                      CallStatusUpdate Active
                        (setAvailableCondition ?down degradedTorrent ''TorrentActive''
                           ''Torrent is active on qBittorrent'')
                        (Some (ErrExternal ''conflict''))]\<rparr>"
    by (simp add: pass_defs example_defs example_hash)
  have st1: "stored (world (Reconcile ?down ?w)) = Some degradedTorrent"
    unfolding w1 by (simp add: startWorld_def)
  have obj2: "status_Conditions (Status (object (Reconcile ?up (world (Reconcile ?down ?w)))))
       = [availableCondition\<lparr>cond_LastTransitionTime := 1700000200\<rparr>]"
    unfolding w1 by (simp add: pass_defs example_defs example_hash)
  have st2: "stored (world (Reconcile ?up (world (Reconcile ?down ?w)))) \<noteq> Some degradedTorrent"
    unfolding w1 by (simp add: pass_defs example_defs example_hash)
  from fin del m st1 updateTorrentStatus_match [OF m] cs obj2 st2 show ?thesis by blast
qed


end
